theory Spec2Isabelle
  imports Main "HOL-Library.Sublist"
begin

section \<open>The discussion service: a shallow embedding\<close>

text \<open>
  The service translates inbound HTTP requests into calls to an external forum platform
  (Discourse), an association table (asset to category), the auth and asset services and
  a message queue. The collaborators are outside the repository: they are oracles of the
  environment \<open>env\<close>, and every call made to one of them is recorded in the world, so that
  statements such as "no external call is made" are statements about the recorded calls.

  Strings are \<open>string\<close>; one \<open>char\<close> stands for one character of a Python \<open>str\<close>.
\<close>

subsection \<open>Constants (models/constants.py, routes/discourse.py, http.client)\<close>

definition DEFAULT_INTERNAL_ERROR_MESSAGE :: string where
  "DEFAULT_INTERNAL_ERROR_MESSAGE = ''We are facing a problem with the subsystem''"

definition MISSING_CATEGORY_ERROR_MESSAGE :: string where
  "MISSING_CATEGORY_ERROR_MESSAGE = ''The category is not existing, please verify the information''"

definition TITLE_TOO_SHORT :: string where
  "TITLE_TOO_SHORT = ''You need to provide a title at least 15 chars''"

definition CONTENT_TOO_SHORT :: string where
  "CONTENT_TOO_SHORT = ''You need to provide a title at least 20 chars''"

definition CONTENT_BLOCKED :: string where
  "CONTENT_BLOCKED = ''[Content has been blocked]''"

definition DISCOURSE_POST_CATEGORY_UUID :: string where
  "DISCOURSE_POST_CATEGORY_UUID = ''00000000-0000-0000-0000-111111111111''"

definition HTTP_STATUS_UNAUTHORIZED :: nat where "HTTP_STATUS_UNAUTHORIZED = 401"
definition HTTP_STATUS_OK :: nat where "HTTP_STATUS_OK = 200"
definition AUTH_ERROR :: nat where "AUTH_ERROR = 25001"
definition ASSET_ERROR :: nat where "ASSET_ERROR = 25002"
definition FORBIDDEN :: nat where "FORBIDDEN = 403"
definition NOT_FOUND :: nat where "NOT_FOUND = 404"
definition UNPROCESSABLE_ENTITY :: nat where "UNPROCESSABLE_ENTITY = 422"
definition TOO_MANY_REQUESTS :: nat where "TOO_MANY_REQUESTS = 429"

definition MIN_TITLE_SIZE_IN_CHAR :: nat where "MIN_TITLE_SIZE_IN_CHAR = 15"
definition MIN_CONTENT_SIZE_IN_CHAR :: nat where "MIN_CONTENT_SIZE_IN_CHAR = 20"

subsection \<open>Strings\<close>

text \<open>\<open>sep.join(xs)\<close> of Python.\<close>

fun join :: "string \<Rightarrow> string list \<Rightarrow> string" where
  "join sep [] = []"
| "join sep [x] = x"
| "join sep (x # y # ys) = x @ sep @ join sep (y # ys)"

text \<open>\<open>str(n)\<close> for a natural number and for an integer.\<close>

definition digit_char :: "nat \<Rightarrow> char" where
  "digit_char d = ''0123456789'' ! d"

fun str_nat :: "nat \<Rightarrow> string" where
  "str_nat n = (if n < 10 then [digit_char n] else str_nat (n div 10) @ [digit_char (n mod 10)])"

declare str_nat.simps [simp del]

definition str_int :: "int \<Rightarrow> string" where
  "str_int i = (if i < 0 then CHR ''-'' # str_nat (nat (- i)) else str_nat (nat i))"

text \<open>The character \<open>'\<close>.\<close>

definition quote :: string where
  "quote = [CHR 0x27]"

text \<open>\<open>s.lower()\<close> on the letters A to Z; every other character is kept.\<close>

definition lower_char :: "char \<Rightarrow> char" where
  "lower_char c =
     (case map_of (zip ''ABCDEFGHIJKLMNOPQRSTUVWXYZ'' ''abcdefghijklmnopqrstuvwxyz'') c of
        None \<Rightarrow> c
      | Some l \<Rightarrow> l)"

definition lower :: "string \<Rightarrow> string" where
  "lower s = map lower_char s"

subsection \<open>Payloads of the forum platform (models/interfaces.py)\<close>

text \<open>
  The pydantic models \<open>DiscourseCategory\<close>, \<open>DiscourseTopic\<close> and \<open>DiscoursePost\<close> list every
  field of the platform's documents. The records below hold the fields that the service
  reads after validation; the others are validated and never read.
\<close>

type_synonym uuid = string

record discourse_category =
  c_id :: int
  c_name :: string
  c_slug :: string

record poster =
  description :: "string option"
  user_id :: "int option"

record discourse_topic =
  t_id :: int
  t_title :: string
  t_fancy_title :: string
  t_slug :: string
  t_posts_count :: int
  t_created_at :: string
  t_category_id :: int
  t_username :: "string option"

text \<open>An entry of \<open>topic_list.topics\<close>: a topic document with its \<open>posters\<close> key
  (\<open>None\<close> when the key is absent).\<close>

record listed_topic =
  topic :: discourse_topic
  posters :: "poster list option"

record discourse_post =
  p_id :: int
  p_name :: string
  p_username :: string
  p_display_username :: string
  p_user_id :: int
  p_avatar_template :: string
  p_created_at :: string
  p_cooked :: string
  p_topic_id :: int

text \<open>
  A JSON document returned by the platform, seen through the keys that the service reads:
  \<^item> \<open>errors\<close> and \<open>error_key\<close>: the lists under the keys "errors" and "error"
    (\<open>None\<close> when the key is absent);
  \<^item> \<open>category\<close>: the value under "category", validated as a \<open>DiscourseCategory\<close>;
  \<^item> \<open>users\<close>: the pairs of "id" and "username" of the entries under "users" (\<open>None\<close>
    when the key is absent: the source then takes the empty list);
  \<^item> \<open>topic_list\<close>: the entries of \<open>topic_list.topics\<close>;
  \<^item> \<open>as_post\<close> and \<open>as_topic\<close>: the document itself, validated as a post or as a topic;
  \<^item> \<open>post_key\<close>: the value under "post", validated as a post;
  \<^item> \<open>created_by\<close>: \<open>None\<close> when the document has no \<open>details.created_by\<close>, and else
    the result of \<open>.get("username")\<close> on it;
  \<^item> \<open>post_stream\<close>: the entries of \<open>post_stream.posts\<close>, validated as posts.

  Where nothing else is said, a field is \<open>None\<close> when the key is absent or the validation
  fails: the source then raises \<open>KeyError\<close>, \<open>TypeError\<close> or a pydantic validation
  error, none of which is an exception of the service. The values present have the types
  that the platform documents.
\<close>

record body =
  errors :: "string list option"
  error_key :: "string list option"
  category :: "discourse_category option"
  users :: "(int \<times> string) list option"
  topic_list :: "listed_topic list option"
  as_post :: "discourse_post option"
  post_key :: "discourse_post option"
  as_topic :: "discourse_topic option"
  created_by :: "string option option"
  post_stream :: "discourse_post list option"

definition empty_body :: body where
  "empty_body = \<lparr>errors = None, error_key = None, category = None, users = None,
     topic_list = None, as_post = None, post_key = None, as_topic = None,
     created_by = None, post_stream = None\<rparr>"

subsection \<open>Requests, responses, users\<close>

datatype http_method = GET | POST | PUT | DELETE

record forum_request =
  rq_method :: http_method
  rq_path :: string
  rq_headers :: "(string \<times> string) list"
  rq_params :: "(string \<times> string) list"
  rq_json :: "(string \<times> string) list"

text \<open>\<open>aiohttp.ClientResponse\<close>: \<open>json\<close> is \<open>None\<close> when \<open>response.json()\<close> raises.\<close>

record forum_response =
  url :: string
  status :: nat
  text_of :: string
  json :: "body option"

text \<open>\<open>msfwk.models.DespUser\<close>, with \<open>profile.email\<close> as \<open>profile_email\<close>.\<close>

record desp_user =
  u_id :: string
  u_username :: string
  u_displayName :: string
  profile_email :: string

subsection \<open>Exceptions (models/exceptions.py and those of the libraries)\<close>

text \<open>\<open>DespGenericError\<close> carries its status code and its code (the message, which embeds
  the text of the exception caught, is left out); \<open>PyError\<close> stands for an exception of
  Python or of a library that the service neither defines nor names.\<close>

datatype exn =
    DiscourseRequestError string
  | DiscourseResourceUnavailableError
  | DiscourseUnavailableError string
  | DiscourseAuthenticationError string
  | AuthenticationNeededError string
  | SendPostModerationError
  | AssetRetrievalError string
  | UserNotLoggedInError string
  | DespGenericError nat nat
  | MQClientSendDataFailedError
  | IntegrityError
  | PyError string

subsection \<open>Collaborators: calls, oracles and the world\<close>

datatype functional_area = DiscussionPost | DiscussionTopic

text \<open>The body of a moderation event (services/rabbitmq_events.py), without its date and
  transaction id.\<close>

record mq_message =
  content_id :: string
  mq_user_id :: string
  fonctionnal_area :: functional_area
  content :: "string \<times> string"
  reject_method :: http_method
  reject_url :: string
  reject_payload :: string

datatype notification_template = ASSET_MODERATION_REJECTED | GENERIC

text \<open>The arguments of \<open>msfwk.notification.send_email_to_mq\<close>.\<close>

record email =
  notification_type :: notification_template
  user_email :: string
  subject :: string
  message :: string
  e_user_id :: string

datatype db_op = Select uuid | Insert int uuid

text \<open>A response of the auth or of the asset service, seen through the keys read.\<close>

record service_body =
  roles :: "string list option"
  profile_email_key :: "string option"
  despUserId :: "string option"
  public_name :: "string option"

record service_response =
  s_status :: nat
  s_text :: string
  s_json :: "service_body option"

datatype call =
    Forum forum_request
  | Db db_op
  | Auth string
  | Asset string
  | Mq mq_message
  | Email email

text \<open>
  The environment: the configuration and the collaborators. A collaborator answers a
  request in view of the calls made so far. \<open>integrity_error\<close> says whether the database
  raises \<open>IntegrityError\<close> on a statement, given the rows of the association table
  (the constraints of the table are not part of the repository). \<open>random_num\<close> is
  \<open>int(random.random() * 10**6)\<close>.
\<close>

record env =
  discourse_host :: string
  api_key :: string
  forum :: "call list \<Rightarrow> forum_request \<Rightarrow> forum_response"
  integrity_error :: "db_op \<Rightarrow> (uuid \<times> int) list \<Rightarrow> bool"
  auth :: "call list \<Rightarrow> string \<Rightarrow> service_response"
  asset :: "call list \<Rightarrow> string \<Rightarrow> service_response"
  mq_accepts :: "call list \<Rightarrow> mq_message \<Rightarrow> bool"
  random_num :: nat

text \<open>
  The world: the rows \<open>(assetId, categoryId)\<close> of the table \<open>Discourses\<close>, the calls made
  to collaborators, and the lines logged at level error (\<open>log.error\<close>, \<open>log.exception\<close>),
  each as its format string and its arguments; lines at the levels info and debug are not
  recorded.
\<close>

datatype log_arg =
  LStr string | LNat nat | LInt int | LList "string list" | LMsg mq_message
  | LDoc service_body | LExn exn

record world =
  rows :: "(uuid \<times> int) list"
  calls :: "call list"
  logs :: "(string \<times> log_arg list) list"

subsection \<open>Computations that may raise\<close>

type_synonym 'a io = "world \<Rightarrow> (exn + 'a) \<times> world"

definition ret :: "'a \<Rightarrow> 'a io" where
  "ret a = (\<lambda>w. (Inr a, w))"

definition raise :: "exn \<Rightarrow> 'a io" where
  "raise e = (\<lambda>w. (Inl e, w))"

definition bind_io :: "'a io \<Rightarrow> ('a \<Rightarrow> 'b io) \<Rightarrow> 'b io" where
  "bind_io m f = (\<lambda>w. case m w of (Inl e, w') \<Rightarrow> (Inl e, w') | (Inr a, w') \<Rightarrow> f a w')"

text \<open>\<open>try: m except e: h e\<close>; a handler re-raises what its \<open>except\<close> clauses do not name.\<close>

definition try_except :: "'a io \<Rightarrow> (exn \<Rightarrow> 'a io) \<Rightarrow> 'a io" where
  "try_except m h = (\<lambda>w. case m w of (Inl e, w') \<Rightarrow> h e w' | (Inr a, w') \<Rightarrow> (Inr a, w'))"

text \<open>A coroutine that is called and not awaited: the coroutine object is dropped and its
  body never runs.\<close>

definition not_awaited :: "'a io \<Rightarrow> unit io" where
  "not_awaited m = ret ()"

definition log_error :: "string \<Rightarrow> log_arg list \<Rightarrow> unit io" where
  "log_error fmt args = (\<lambda>w. (Inr (), w\<lparr>logs := logs w @ [(fmt, args)]\<rparr>))"

definition record_call :: "call \<Rightarrow> unit io" where
  "record_call c = (\<lambda>w. (Inr (), w\<lparr>calls := calls w @ [c]\<rparr>))"

definition forum_call :: "env \<Rightarrow> forum_request \<Rightarrow> forum_response io" where
  "forum_call E rq = (\<lambda>w. (Inr (forum E (calls w) rq), w\<lparr>calls := calls w @ [Forum rq]\<rparr>))"

definition response_json :: "forum_response \<Rightarrow> body io" where
  "response_json response =
     (case json response of None \<Rightarrow> raise (PyError ''ContentTypeError'') | Some b \<Rightarrow> ret b)"

text \<open>\<open>d[key]\<close> on a key of a document, and the validation of the value by its model.\<close>

definition item :: "'a option \<Rightarrow> 'a io" where
  "item v = (case v of None \<Rightarrow> raise (PyError ''KeyError or ValidationError'') | Some x \<Rightarrow> ret x)"

subsection \<open>The forum client adapter (services/discourse.py)\<close>

definition get_discourse_header :: "env \<Rightarrow> string \<Rightarrow> (string \<times> string) list" where
  "get_discourse_header E username =
     [(''Api-Key'', api_key E), (''Api-Username'', username), (''Accept'', ''application/json'')]"

text \<open>\<open>int(status / 100) == 5\<close>, on a status that is a natural number.\<close>

definition is_a_5xx_error :: "nat \<Rightarrow> bool" where
  "is_a_5xx_error st = (st div 100 = 5)"

definition handle_response_error :: "env \<Rightarrow> forum_response \<Rightarrow> string \<Rightarrow> unit io" where
  "handle_response_error E response msg =
     (if is_a_5xx_error (status response) then
        bind_io (log_error ''Something is wrong with the Discourse app %s %s %s''
                   [LStr (url response), LNat (status response), LStr (text_of response)]) (\<lambda>_.
        bind_io (log_error msg []) (\<lambda>_.
        raise (DiscourseUnavailableError msg)))
      else if status response = FORBIDDEN then
        bind_io (log_error ''Authentication issue on %s using key %s''
                   [LStr (discourse_host E), LStr (api_key E)]) (\<lambda>_.
        raise (DiscourseAuthenticationError (''Failed to authenticate on discourse during '' @ msg)))
      else if status response = UNPROCESSABLE_ENTITY then
        bind_io (log_error (''Provided parameters are not matching expectation during '' @ msg) []) (\<lambda>_.
        bind_io (response_json response) (\<lambda>json_response.
        bind_io (item (errors json_response)) (\<lambda>es.
        bind_io (log_error ''Check parameter for %s'' [LList es]) (\<lambda>_.
        raise (DiscourseRequestError (join ''-'' es))))))
      else if status response = TOO_MANY_REQUESTS then
        bind_io (log_error (''Too many request during '' @ msg) []) (\<lambda>_.
        bind_io (response_json response) (\<lambda>json_response.
        bind_io (item (errors json_response)) (\<lambda>es.
        raise (DiscourseRequestError (join ''-'' es)))))
      else ret ())"

text \<open>The association store.\<close>

definition db_execute :: "env \<Rightarrow> db_op \<Rightarrow> (uuid \<times> int) list io" where
  "db_execute E op = (\<lambda>w.
     let w' = w\<lparr>calls := calls w @ [Db op]\<rparr> in
     if integrity_error E op (rows w) then (Inl IntegrityError, w')
     else (case op of
             Select asset_id \<Rightarrow> (Inr (filter (\<lambda>r. fst r = asset_id) (rows w)), w')
           | Insert category_id asset_id \<Rightarrow>
               (Inr [], w'\<lparr>rows := rows w @ [(asset_id, category_id)]\<rparr>)))"

definition get_first_record :: "(uuid \<times> int) list \<Rightarrow> (uuid \<times> int) option" where
  "get_first_record result = (case result of [] \<Rightarrow> None | first # _ \<Rightarrow> Some first)"

definition get_category_asset :: "env \<Rightarrow> uuid \<Rightarrow> int option io" where
  "get_category_asset E asset_id =
     try_except
       (bind_io (db_execute E (Select asset_id)) (\<lambda>result.
        ret (case get_first_record result of None \<Rightarrow> None | Some r \<Rightarrow> Some (snd r))))
       (\<lambda>e. case e of
          IntegrityError \<Rightarrow>
            bind_io (log_error ''Failed to retrieve category for asset %s'' [LStr asset_id]) (\<lambda>_.
            ret None)
        | _ \<Rightarrow> raise e)"

definition set_category_asset :: "env \<Rightarrow> int \<Rightarrow> uuid \<Rightarrow> int option io" where
  "set_category_asset E category_id asset_id =
     try_except
       (bind_io (db_execute E (Insert category_id asset_id)) (\<lambda>_. ret None))
       (\<lambda>e. case e of
          IntegrityError \<Rightarrow>
            bind_io (log_error ''Failed to store category for asset %s'' [LStr asset_id]) (\<lambda>_.
            ret None)
        | _ \<Rightarrow> raise e)"

definition ok_status :: "nat \<Rightarrow> bool" where
  "ok_status st = (st = 200 \<or> st = 201)"

definition ensure_user :: "env \<Rightarrow> desp_user option \<Rightarrow> unit io" where
  "ensure_user E desp_user =
     (case desp_user of
        None \<Rightarrow>
          bind_io (log_error ''You need to be logged in in order to publish on forum'' []) (\<lambda>_.
          raise (AuthenticationNeededError ''You need to be logged in in order to publish on forum''))
      | Some u \<Rightarrow>
          bind_io (forum_call E
            \<lparr>rq_method = POST, rq_path = ''/users.json'',
             rq_headers = get_discourse_header E ''system'', rq_params = [],
             rq_json = [(''name'', u_displayName u), (''email'', u_id u @ ''@eu.space''),
                        (''password'', ''#despAAS2024''), (''username'', u_username u),
                        (''active'', ''true''), (''approved'', ''true'')]\<rparr>) (\<lambda>response.
          handle_response_error E response ''category retrieval''))"

definition create_category :: "env \<Rightarrow> uuid \<Rightarrow> discourse_category io" where
  "create_category E asset_id =
     bind_io (forum_call E
       \<lparr>rq_method = POST, rq_path = ''/categories.json'',
        rq_headers = get_discourse_header E ''system'', rq_params = [],
        rq_json = [(''name'', str_nat (random_num E) @ ''_'' @ asset_id)]\<rparr>) (\<lambda>response.
     bind_io (if \<not> ok_status (status response)
              then handle_response_error E response ''category creation'' else ret ()) (\<lambda>_.
     bind_io (response_json response) (\<lambda>category_response.
     case errors category_response of
       Some es \<Rightarrow> raise (DiscourseRequestError (join ''-'' es))
     | None \<Rightarrow>
         bind_io (item (category category_response)) (\<lambda>discourse_category.
         bind_io (set_category_asset E (c_id discourse_category) asset_id) (\<lambda>_.
         ret discourse_category)))))"

definition get_discourse_category :: "env \<Rightarrow> int option \<Rightarrow> uuid \<Rightarrow> discourse_category io" where
  "get_discourse_category E category_opt asset_id =
     (case category_opt of
        None \<Rightarrow> create_category E asset_id
      | Some cat \<Rightarrow>
          bind_io (forum_call E
            \<lparr>rq_method = GET, rq_path = ''/c/'' @ str_int cat @ ''/show.json'',
             rq_headers = get_discourse_header E ''system'', rq_params = [],
             rq_json = []\<rparr>) (\<lambda>response.
          bind_io (handle_response_error E response ''category retrieval'') (\<lambda>_.
          if status response = NOT_FOUND then create_category E asset_id
          else
            bind_io (response_json response) (\<lambda>category_response.
            item (category category_response)))))"

text \<open>
  \<open>re.match(pattern, s)\<close> for a pattern that is a sequence of literals and of character
  classes under \<open>+\<close>: the pattern matches a prefix of \<open>s\<close>, and a class under \<open>+\<close> takes one
  or more characters, every split being tried.
\<close>

datatype re_token = Lit string | Plus "char \<Rightarrow> bool"

fun re_match :: "re_token list \<Rightarrow> string \<Rightarrow> bool" where
  "re_match [] s = True"
| "re_match (Lit l # ts) s = (prefix l s \<and> re_match ts (drop (length l) s))"
| "re_match (Plus P # ts) [] = False"
| "re_match (Plus P # ts) (c # cs) = (P c \<and> (re_match (Plus P # ts) cs \<or> re_match ts cs))"

text \<open>The pattern \<open>About the \d+_[a-f0-9\-]+ category\<close>, with the digits 0 to 9 for
  \<open>\d\<close>.\<close>

definition pattern :: "re_token list" where
  "pattern = [Lit ''About the '', Plus (\<lambda>c. c \<in> set ''0123456789''), Lit ''_'',
              Plus (\<lambda>c. c \<in> set ''abcdef0123456789-''), Lit '' category'']"

definition check_default_message :: "string \<Rightarrow> bool" where
  "check_default_message s = re_match pattern s"

text \<open>The inner loop of \<open>get_discourse_topics\<close>: the first poster whose description
  contains "Original Poster" decides the username, and the loop stops there.\<close>

fun original_poster :: "(int \<Rightarrow> string option) \<Rightarrow> poster list \<Rightarrow> string option" where
  "original_poster user_lookup [] = None"
| "original_poster user_lookup (p # ps) =
     (if sublist ''Original Poster'' (case description p of None \<Rightarrow> [] | Some d \<Rightarrow> d)
      then (case user_id p of None \<Rightarrow> None | Some i \<Rightarrow> user_lookup i)
      else original_poster user_lookup ps)"

definition enrich :: "(int \<Rightarrow> string option) \<Rightarrow> listed_topic \<Rightarrow> discourse_topic" where
  "enrich user_lookup lt =
     (topic lt)\<lparr>t_username :=
        original_poster user_lookup (case posters lt of None \<Rightarrow> [] | Some ps \<Rightarrow> ps)\<rparr>"

definition get_discourse_topics :: "env \<Rightarrow> string \<Rightarrow> int \<Rightarrow> discourse_topic list io" where
  "get_discourse_topics E slug category_id =
     bind_io (forum_call E
       \<lparr>rq_method = GET, rq_path = ''/c/'' @ slug @ ''/'' @ str_int category_id @ ''.json'',
        rq_headers = [], rq_params = [], rq_json = []\<rparr>) (\<lambda>response.
     bind_io (if \<not> ok_status (status response) then
                (if status response = NOT_FOUND then
                   bind_io (log_error ''Category %s does not exist: %s / %s''
                      [LInt category_id, LNat (status response), LStr (text_of response)]) (\<lambda>_.
                   raise DiscourseResourceUnavailableError)
                 else not_awaited (handle_response_error E response ''Getting topics''))
              else ret ()) (\<lambda>_.
     bind_io (response_json response) (\<lambda>data.
     let user_lookup = map_of (rev (case users data of None \<Rightarrow> [] | Some us \<Rightarrow> us)) in
     bind_io (item (topic_list data)) (\<lambda>topics.
     ret (map (enrich user_lookup)
            (filter (\<lambda>t. \<not> check_default_message (t_title (topic t))) topics))))))"

definition create_discourse_topic ::
    "env \<Rightarrow> string \<Rightarrow> int \<Rightarrow> string \<Rightarrow> string \<Rightarrow> discourse_post io" where
  "create_discourse_topic E username category_id title content_text =
     bind_io (forum_call E
       \<lparr>rq_method = POST, rq_path = ''/posts.json'',
        rq_headers = get_discourse_header E username, rq_params = [],
        rq_json = [(''category'', str_int category_id), (''title'', title),
                   (''raw'', content_text)]\<rparr>) (\<lambda>response.
     bind_io (if \<not> ok_status (status response)
              then handle_response_error E response ''Topic creation'' else ret ()) (\<lambda>_.
     bind_io (response_json response) (\<lambda>topic_response.
     case error_key topic_response of
       Some es \<Rightarrow> raise (DiscourseRequestError (join ''-'' es))
     | None \<Rightarrow> item (as_post topic_response))))"

definition create_discourse_post :: "env \<Rightarrow> string \<Rightarrow> string \<Rightarrow> string \<Rightarrow> body io" where
  "create_discourse_post E username topic_id text =
     bind_io (forum_call E
       \<lparr>rq_method = POST, rq_path = ''/posts.json'',
        rq_headers = get_discourse_header E username, rq_params = [],
        rq_json = [(''topic_id'', topic_id), (''raw'', text)]\<rparr>) (\<lambda>response.
     bind_io (if \<not> ok_status (status response)
              then handle_response_error E response ''Post creation'' else ret ()) (\<lambda>_.
     response_json response))"

text \<open>The username of \<open>details.created_by\<close>, when the document has one, replaces the
  document's own \<open>username\<close> before validation.\<close>

definition with_creator :: "body \<Rightarrow> discourse_topic io" where
  "with_creator b =
     bind_io (item (as_topic b)) (\<lambda>t.
     ret (case created_by b of None \<Rightarrow> t | Some creator \<Rightarrow> t\<lparr>t_username := creator\<rparr>))"

definition get_discourse_posts ::
    "env \<Rightarrow> string \<Rightarrow> (discourse_topic \<times> discourse_post list) io" where
  "get_discourse_posts E topic_id =
     bind_io (forum_call E
       \<lparr>rq_method = GET, rq_path = ''/t/'' @ topic_id @ ''.json'',
        rq_headers = get_discourse_header E ''system'', rq_params = [(''print'', ''true'')],
        rq_json = []\<rparr>) (\<lambda>response.
     bind_io (if \<not> ok_status (status response)
              then handle_response_error E response ''Post listing'' else ret ()) (\<lambda>_.
     bind_io (response_json response) (\<lambda>topic_doc.
     bind_io (with_creator topic_doc) (\<lambda>t.
     bind_io (item (post_stream topic_doc)) (\<lambda>ps.
     ret (t, ps))))))"

definition get_discourse_topic :: "env \<Rightarrow> string \<Rightarrow> discourse_topic io" where
  "get_discourse_topic E topic_id =
     bind_io (forum_call E
       \<lparr>rq_method = GET, rq_path = ''/t/'' @ topic_id @ ''.json'',
        rq_headers = get_discourse_header E ''system'', rq_params = [], rq_json = []\<rparr>) (\<lambda>response.
     bind_io (if \<not> ok_status (status response)
              then handle_response_error E response ''Fetching topic'' else ret ()) (\<lambda>_.
     bind_io (response_json response) (\<lambda>topic_data.
     with_creator topic_data)))"

definition get_discourse_post :: "env \<Rightarrow> string \<Rightarrow> discourse_post io" where
  "get_discourse_post E post_id =
     bind_io (forum_call E
       \<lparr>rq_method = GET, rq_path = ''/posts/'' @ post_id @ ''.json'',
        rq_headers = get_discourse_header E ''system'', rq_params = [], rq_json = []\<rparr>) (\<lambda>response.
     bind_io (if \<not> ok_status (status response)
              then handle_response_error E response ''Fetching post'' else ret ()) (\<lambda>_.
     bind_io (response_json response) (\<lambda>post_data.
     item (as_post post_data))))"

definition edit_discourse_post :: "env \<Rightarrow> string \<Rightarrow> string \<Rightarrow> discourse_post io" where
  "edit_discourse_post E post_id updated_content =
     bind_io (forum_call E
       \<lparr>rq_method = PUT, rq_path = ''/posts/'' @ post_id @ ''.json'',
        rq_headers = get_discourse_header E ''system'', rq_params = [],
        rq_json = [(''raw'', updated_content)]\<rparr>) (\<lambda>response.
     bind_io (if \<not> ok_status (status response)
              then handle_response_error E response ''Post modification'' else ret ()) (\<lambda>_.
     bind_io (response_json response) (\<lambda>doc.
     item (post_key doc))))"

definition delete_discourse_topic :: "env \<Rightarrow> string \<Rightarrow> unit io" where
  "delete_discourse_topic E topic_id =
     bind_io (forum_call E
       \<lparr>rq_method = DELETE, rq_path = ''/t/'' @ topic_id @ ''.json'',
        rq_headers = get_discourse_header E ''system'', rq_params = [], rq_json = []\<rparr>) (\<lambda>response.
     if \<not> ok_status (status response)
     then handle_response_error E response ''Topic deletion'' else ret ())"

subsection \<open>The moderation event publisher (services/rabbitmq_events.py)\<close>

text \<open>The message classes of the source take the post where the model takes its id, the
  only field of the post that they read; so do the two functions that send the messages.\<close>

definition ValidatePostMessage :: "int \<Rightarrow> string \<Rightarrow> desp_user \<Rightarrow> mq_message" where
  "ValidatePostMessage post_id text user =
     \<lparr>content_id = str_int post_id, mq_user_id = u_id user,
      fonctionnal_area = DiscussionPost, content = (''post_content'', text),
      reject_method = PUT, reject_url = ''/post/moderate/'' @ str_int post_id,
      reject_payload = CONTENT_BLOCKED\<rparr>"

definition ValidateTopicMessage :: "int \<Rightarrow> string \<Rightarrow> desp_user \<Rightarrow> mq_message" where
  "ValidateTopicMessage topic_id topic_title user =
     \<lparr>content_id = str_int topic_id, mq_user_id = u_id user,
      fonctionnal_area = DiscussionTopic, content = (''topic_title'', topic_title),
      reject_method = DELETE, reject_url = ''/topic/moderate/'' @ str_int topic_id,
      reject_payload = CONTENT_BLOCKED\<rparr>"

text \<open>\<open>msfwk.mqclient.send_mq_message\<close>: the attempt is recorded, and the queue client
  raises \<open>MQClientSendDataFailedError\<close> when the queue does not take the message.\<close>

definition send_mq_message :: "env \<Rightarrow> mq_message \<Rightarrow> unit io" where
  "send_mq_message E m = (\<lambda>w.
     (if mq_accepts E (calls w) m then Inr () else Inl MQClientSendDataFailedError,
      w\<lparr>calls := calls w @ [Mq m]\<rparr>))"

definition send_post_to_moderation :: "env \<Rightarrow> int \<Rightarrow> string \<Rightarrow> desp_user \<Rightarrow> unit io" where
  "send_post_to_moderation E post_id text user =
     (let mq_message = ValidatePostMessage post_id text user in
      try_except (send_mq_message E mq_message)
        (\<lambda>e. case e of
           MQClientSendDataFailedError \<Rightarrow>
             bind_io (log_error ''Failed to send data to MQ %s'' [LMsg mq_message]) (\<lambda>_.
             raise SendPostModerationError)
         | _ \<Rightarrow> raise e))"

definition send_topic_to_moderation :: "env \<Rightarrow> int \<Rightarrow> string \<Rightarrow> desp_user \<Rightarrow> unit io" where
  "send_topic_to_moderation E topic_id topic_title user =
     (let mq_message = ValidateTopicMessage topic_id topic_title user in
      try_except (send_mq_message E mq_message)
        (\<lambda>e. case e of
           MQClientSendDataFailedError \<Rightarrow>
             bind_io (log_error ''Failed to send data to MQ %s'' [LMsg mq_message]) (\<lambda>_.
             raise SendPostModerationError)
         | _ \<Rightarrow> raise e))"

text \<open>\<open>msfwk.notification.send_email_to_mq\<close>: the request to send an email is recorded.\<close>

definition send_email_to_mq :: "email \<Rightarrow> unit io" where
  "send_email_to_mq m = record_call (Email m)"

subsection \<open>The auth and asset clients (routes/auth_service.py, services/asset.py)\<close>

definition auth_call :: "env \<Rightarrow> string \<Rightarrow> service_response io" where
  "auth_call E path = (\<lambda>w. (Inr (auth E (calls w) path), w\<lparr>calls := calls w @ [Auth path]\<rparr>))"

definition asset_call :: "env \<Rightarrow> string \<Rightarrow> service_response io" where
  "asset_call E path = (\<lambda>w. (Inr (asset E (calls w) path), w\<lparr>calls := calls w @ [Asset path]\<rparr>))"

definition service_json :: "service_response \<Rightarrow> service_body io" where
  "service_json response =
     (case s_json response of None \<Rightarrow> raise (PyError ''ContentTypeError'') | Some b \<Rightarrow> ret b)"

definition get_mail_from_desp_user_id :: "env \<Rightarrow> string \<Rightarrow> string io" where
  "get_mail_from_desp_user_id E desp_user_id =
     try_except
       (bind_io (auth_call E (''/profile/'' @ desp_user_id)) (\<lambda>response.
        bind_io (if s_status response \<noteq> 200
                 then bind_io (service_json response) (\<lambda>b. log_error ''%s'' [LDoc b])
                 else ret ()) (\<lambda>_.
        bind_io (service_json response) (\<lambda>response_content.
        item (profile_email_key response_content)))))
       (\<lambda>e. bind_io (log_error ''Exception while contacting auth service : %s'' [LExn e]) (\<lambda>_.
            raise (DespGenericError 500 AUTH_ERROR)))"

text \<open>The result is \<open>None\<close> when the status is neither 401 nor 200: the source then reaches
  the end of the function.\<close>

definition get_current_user_roles :: "env \<Rightarrow> string list option io" where
  "get_current_user_roles E =
     try_except
       (bind_io (auth_call E ''/profile'') (\<lambda>response.
        if s_status response = HTTP_STATUS_UNAUTHORIZED then
          bind_io (log_error ''User is not logged in'' []) (\<lambda>_.
          raise (UserNotLoggedInError ''User is not logged in''))
        else if s_status response = HTTP_STATUS_OK then
          bind_io (service_json response) (\<lambda>response_json.
          bind_io (item (roles response_json)) (\<lambda>rs.
          ret (Some rs)))
        else ret None))
       (\<lambda>e. bind_io (log_error ''Failed to get current user roles'' []) (\<lambda>_.
            raise (DiscourseRequestError ''Failed to get current user roles'')))"

text \<open>\<open>_get_asset_owner\<close> of the source.\<close>

definition get_asset_owner :: "env \<Rightarrow> uuid \<Rightarrow> string io" where
  "get_asset_owner E asset_id =
     bind_io (asset_call E (''/'' @ asset_id)) (\<lambda>response.
     if \<not> ok_status (s_status response) then
       bind_io (log_error ''Failed to get asset %s, %s''
                  [LNat (s_status response), LStr (s_text response)]) (\<lambda>_.
       raise (AssetRetrievalError (''Asset service answered '' @ str_nat (s_status response))))
     else
       bind_io (service_json response) (\<lambda>b.
       item (despUserId b)))"

definition get_asset :: "env \<Rightarrow> uuid \<Rightarrow> service_body io" where
  "get_asset E asset_id =
     try_except
       (bind_io (asset_call E (''/'' @ asset_id)) (\<lambda>response.
        bind_io (if s_status response \<noteq> 200
                 then bind_io (service_json response) (\<lambda>b. log_error ''%s'' [LDoc b])
                 else ret ()) (\<lambda>_.
        service_json response)))
       (\<lambda>e. bind_io (log_error ''Exception while contacting asset-management service : %s''
                        [LExn e]) (\<lambda>_.
            raise (DespGenericError 500 ASSET_ERROR)))"

subsection \<open>Response shaping (models/interfaces.py)\<close>

record discussion_post_response =
  pr_id :: int
  pr_name :: string
  pr_username :: string
  pr_display_username :: string
  pr_user_id :: int
  pr_avatar_template :: string
  pr_created_at :: string
  pr_cooked :: string
  pr_topic_id :: int

definition post_from_reply :: "discourse_post \<Rightarrow> discussion_post_response" where
  "post_from_reply discourse_post =
     \<lparr>pr_id = p_id discourse_post, pr_name = p_name discourse_post,
      pr_username = p_username discourse_post,
      pr_display_username = p_display_username discourse_post,
      pr_user_id = p_user_id discourse_post,
      pr_avatar_template = p_avatar_template discourse_post,
      pr_created_at = p_created_at discourse_post, pr_cooked = p_cooked discourse_post,
      pr_topic_id = p_topic_id discourse_post\<rparr>"

record discussion_topic_response =
  tr_posts :: "discussion_post_response list"
  tr_id :: int
  tr_title :: string
  tr_fancy_title :: string
  tr_posts_count :: int
  tr_created_at :: string
  tr_slug :: string
  tr_category_id :: int
  tr_username :: "string option"

definition topic_from_reply ::
    "discourse_topic \<Rightarrow> discourse_post list option \<Rightarrow> discussion_topic_response" where
  "topic_from_reply discourse_topic posts =
     \<lparr>tr_posts = map post_from_reply (case posts of None \<Rightarrow> [] | Some ps \<Rightarrow> ps),
      tr_id = t_id discourse_topic, tr_title = t_title discourse_topic,
      tr_fancy_title = t_fancy_title discourse_topic,
      tr_posts_count = t_posts_count discourse_topic,
      tr_created_at = t_created_at discourse_topic, tr_slug = t_slug discourse_topic,
      tr_category_id = t_category_id discourse_topic,
      tr_username = t_username discourse_topic\<rparr>"

record discussion_response =
  dr_id :: int
  dr_name :: string
  dr_topics :: "discussion_topic_response list"

definition discussion_from_reply ::
    "discourse_category \<Rightarrow> discourse_topic list \<Rightarrow> discussion_response" where
  "discussion_from_reply discourse_category topics_response =
     \<lparr>dr_id = c_id discourse_category, dr_name = c_name discourse_category,
      dr_topics = map (\<lambda>t. topic_from_reply t None) topics_response\<rparr>"

text \<open>The \<open>data\<close> of a \<open>DespResponse\<close>: the empty dictionary, a response model, the
  dictionaries \<open>{"message": m}\<close> and \<open>{"Error": m}\<close>, or a topic as the platform gave it.\<close>

datatype payload =
    EmptyDict
  | DiscussionData discussion_response
  | TopicsData "discussion_topic_response list"
  | TopicData discussion_topic_response
  | PostData discussion_post_response
  | MessageData string
  | ErrorData string
  | DiscourseTopicData discourse_topic

text \<open>\<open>msfwk.models.DespResponse\<close>; \<open>http_status = None\<close> when the argument is not given.\<close>

record desp_response =
  data :: payload
  error :: "string option"
  http_status :: "nat option"

subsection \<open>The routes (routes/discourse.py)\<close>

text \<open>
  A route takes the value of \<open>get_current_user()\<close>, which is \<open>None\<close> when the request
  carries no user, and its path and body parameters. \<open>attr\<close> is the access to an attribute
  of that value.

  Every route but \<open>get_topics\<close> ends with the same four \<open>except\<close> clauses, which differ
  in the \<open>http_status\<close> they give: \<open>except_clauses\<close> takes the value that the variable
  \<open>response\<close> holds when the exception is raised, the status of the clause for
  \<open>DiscourseUnavailableError\<close> and \<open>DiscourseResourceUnavailableError\<close>, and the status
  of the clause for \<open>DiscourseRequestError\<close>.
\<close>

definition attr :: "desp_user option \<Rightarrow> desp_user io" where
  "attr user = (case user of None \<Rightarrow> raise (PyError ''AttributeError'') | Some u \<Rightarrow> ret u)"

text \<open>\<open>for role in current_user_roles\<close>.\<close>

definition iterate :: "'a list option \<Rightarrow> 'a list io" where
  "iterate xs = (case xs of None \<Rightarrow> raise (PyError ''TypeError'') | Some ys \<Rightarrow> ret ys)"

definition except_clauses ::
    "payload \<Rightarrow> nat option \<Rightarrow> nat option \<Rightarrow> exn \<Rightarrow> desp_response io" where
  "except_clauses response unavailable_status request_status e =
     (case e of
        DiscourseUnavailableError _ \<Rightarrow>
          ret \<lparr>data = response, error = Some DEFAULT_INTERNAL_ERROR_MESSAGE,
               http_status = unavailable_status\<rparr>
      | DiscourseResourceUnavailableError \<Rightarrow>
          ret \<lparr>data = response, error = Some DEFAULT_INTERNAL_ERROR_MESSAGE,
               http_status = unavailable_status\<rparr>
      | DiscourseRequestError dre \<Rightarrow>
          ret \<lparr>data = response, error = Some dre, http_status = request_status\<rparr>
      | AuthenticationNeededError ane \<Rightarrow>
          ret \<lparr>data = response, error = Some ane, http_status = Some 401\<rparr>
      | _ \<Rightarrow> raise e)"

definition get_category :: "env \<Rightarrow> uuid \<Rightarrow> desp_response io" where
  "get_category E asset_id =
     try_except
       (bind_io (get_category_asset E asset_id) (\<lambda>asset_category_id.
        bind_io (get_discourse_category E asset_category_id asset_id) (\<lambda>category_response.
        bind_io (get_discourse_topics E (c_slug category_response) (c_id category_response))
          (\<lambda>topics_response.
        ret \<lparr>data = DiscussionData (discussion_from_reply category_response topics_response),
             error = None, http_status = None\<rparr>))))
       (except_clauses (DiscussionData \<lparr>dr_id = 0, dr_name = [], dr_topics = []\<rparr>) None None)"

definition get_topics_except :: "payload \<Rightarrow> exn \<Rightarrow> desp_response io" where
  "get_topics_except response e =
     (case e of
        DiscourseUnavailableError _ \<Rightarrow>
          ret \<lparr>data = response, error = Some DEFAULT_INTERNAL_ERROR_MESSAGE,
               http_status = Some 500\<rparr>
      | DiscourseResourceUnavailableError \<Rightarrow>
          ret \<lparr>data = response, error = Some MISSING_CATEGORY_ERROR_MESSAGE,
               http_status = Some 404\<rparr>
      | DiscourseRequestError dre \<Rightarrow>
          ret \<lparr>data = response, error = Some dre, http_status = Some 500\<rparr>
      | AuthenticationNeededError ane \<Rightarrow>
          ret \<lparr>data = response, error = Some ane, http_status = Some 401\<rparr>
      | _ \<Rightarrow> raise e)"

definition get_topics :: "env \<Rightarrow> string \<Rightarrow> int \<Rightarrow> desp_response io" where
  "get_topics E slug category_id =
     try_except
       (bind_io (get_discourse_topics E slug category_id) (\<lambda>topics.
        ret \<lparr>data = TopicsData (map (\<lambda>t. topic_from_reply t None) topics),
             error = None, http_status = None\<rparr>))
       (get_topics_except EmptyDict)"

definition create_post :: "env \<Rightarrow> desp_user option \<Rightarrow> string \<Rightarrow> string \<Rightarrow> desp_response io" where
  "create_post E current_user topic_id text =
     bind_io (attr current_user) (\<lambda>user.
     try_except
       (bind_io (ensure_user E current_user) (\<lambda>_.
        bind_io (create_discourse_post E (u_username user) topic_id text) (\<lambda>response.
        bind_io (item (as_post response)) (\<lambda>created.
        let query_result = post_from_reply created in
        bind_io (send_post_to_moderation E (pr_id query_result) text user) (\<lambda>_.
        ret \<lparr>data = PostData query_result, error = None, http_status = None\<rparr>)))))
       (except_clauses EmptyDict None None))"

definition edit_post :: "env \<Rightarrow> string \<Rightarrow> string \<Rightarrow> desp_response io" where
  "edit_post E post_id text =
     try_except
       (bind_io (edit_discourse_post E post_id text) (\<lambda>response.
        ret \<lparr>data = PostData (post_from_reply response), error = None, http_status = None\<rparr>))
       (except_clauses EmptyDict None None)"

definition moderate_post :: "env \<Rightarrow> desp_user option \<Rightarrow> string \<Rightarrow> string \<Rightarrow> desp_response io" where
  "moderate_post E current_user post_id text =
     try_except
       (bind_io (ensure_user E current_user) (\<lambda>_.
        bind_io (get_discourse_post E post_id) (\<lambda>original_post.
        bind_io (edit_discourse_post E post_id text) (\<lambda>response.
        bind_io (attr current_user) (\<lambda>user.
        bind_io (send_email_to_mq
          \<lparr>notification_type = ASSET_MODERATION_REJECTED, user_email = profile_email user,
           subject = ''Post refused by moderation'',
           message = ''Post has been refused by the moderation: '' @ p_cooked original_post,
           e_user_id = u_id user\<rparr>) (\<lambda>_.
        ret \<lparr>data = PostData (post_from_reply response), error = None,
             http_status = None\<rparr>))))))
       (except_clauses EmptyDict None None)"

definition get_topic :: "env \<Rightarrow> string \<Rightarrow> desp_response io" where
  "get_topic E topic_id =
     try_except
       (bind_io (get_discourse_posts E topic_id) (\<lambda>(t, posts).
        ret \<lparr>data = TopicData (topic_from_reply t (Some posts)), error = None,
             http_status = None\<rparr>))
       (except_clauses EmptyDict None None)"

text \<open>\<open>CreateTopicBody\<close>.\<close>

record create_topic_body =
  tb_title :: string
  tb_text :: string
  tb_asset_id :: uuid

definition create_topic :: "env \<Rightarrow> desp_user option \<Rightarrow> create_topic_body \<Rightarrow> desp_response io" where
  "create_topic E current_user topic_request_body =
     bind_io (attr current_user) (\<lambda>user.
     if length (tb_title topic_request_body) < MIN_TITLE_SIZE_IN_CHAR then
       bind_io (log_error (''Title is too short '' @ quote @ ''%s'' @ quote)
                  [LStr (tb_title topic_request_body)]) (\<lambda>_.
       ret \<lparr>data = EmptyDict, error = Some TITLE_TOO_SHORT, http_status = Some 400\<rparr>)
     else if length (tb_text topic_request_body) < MIN_CONTENT_SIZE_IN_CHAR then
       bind_io (log_error (''Text is too short '' @ quote @ ''%s'' @ quote)
                  [LStr (tb_text topic_request_body)]) (\<lambda>_.
       ret \<lparr>data = EmptyDict, error = Some CONTENT_TOO_SHORT, http_status = Some 400\<rparr>)
     else
       try_except
         (bind_io (ensure_user E current_user) (\<lambda>_.
          bind_io (get_category_asset E (tb_asset_id topic_request_body)) (\<lambda>asset_category_id.
          case asset_category_id of
            None \<Rightarrow>
              ret \<lparr>data = ErrorData (''Topic creation Failed. Category_id for asset ''
                            @ tb_asset_id topic_request_body @ '' is missing.''),
                   error = None, http_status = Some 500\<rparr>
          | Some cat \<Rightarrow>
              bind_io (create_discourse_topic E (u_username user) cat
                         (tb_title topic_request_body) (tb_text topic_request_body)) (\<lambda>post.
              let query_result = post_from_reply post in
              bind_io (send_topic_to_moderation E (p_topic_id post)
                         (tb_title topic_request_body) user) (\<lambda>_.
              bind_io (send_post_to_moderation E (pr_id query_result)
                         (tb_text topic_request_body) user) (\<lambda>_.
              bind_io
                (if tb_asset_id topic_request_body = DISCOURSE_POST_CATEGORY_UUID then
                   send_email_to_mq
                     \<lparr>notification_type = GENERIC, user_email = profile_email user,
                      subject = ''New Post Created'',
                      message = ''A new post '' @ quote @ tb_title topic_request_body
                                @ quote @ '' has been created.'',
                      e_user_id = u_id user\<rparr>
                 else
                   bind_io (get_asset_owner E (tb_asset_id topic_request_body)) (\<lambda>owner_user_id.
                   bind_io (get_mail_from_desp_user_id E owner_user_id) (\<lambda>owner_mail.
                   bind_io (get_asset E (tb_asset_id topic_request_body)) (\<lambda>asset_doc.
                   bind_io (item (public_name asset_doc)) (\<lambda>asset_name.
                   send_email_to_mq
                     \<lparr>notification_type = GENERIC, user_email = owner_mail,
                      subject = ''New Topic created for your asset'',
                      message = ''A new topic '' @ quote @ tb_title topic_request_body
                                @ quote @ '' has been created for your asset ''
                                @ quote @ asset_name @ quote,
                      e_user_id = u_id user\<rparr>))))) (\<lambda>_.
              ret \<lparr>data = PostData query_result, error = None, http_status = None\<rparr>)))))))
         (except_clauses EmptyDict None (Some 400)))"

definition delete_topic :: "env \<Rightarrow> desp_user option \<Rightarrow> string \<Rightarrow> desp_response io" where
  "delete_topic E current_user topic_id =
     try_except
       (bind_io (ensure_user E current_user) (\<lambda>_.
        bind_io (get_discourse_topic E topic_id) (\<lambda>topic_found.
        bind_io (get_current_user_roles E) (\<lambda>current_user_roles.
        bind_io (iterate current_user_roles) (\<lambda>rs.
        let is_admin = (''admin'' \<in> set (map lower rs)) in
        bind_io (attr current_user) (\<lambda>user.
        if t_username topic_found \<noteq> Some (u_username user) \<and> \<not> is_admin then
          bind_io (log_error ''Only the topic owner or admin can delete the topic.'' []) (\<lambda>_.
          ret \<lparr>data = EmptyDict,
               error = Some ''Only the topic owner or admin can delete the topic.'',
               http_status = Some 403\<rparr>)
        else
          bind_io (delete_discourse_topic E topic_id) (\<lambda>_.
          ret \<lparr>data = MessageData ''Topic deleted successfully'', error = None,
               http_status = None\<rparr>)))))))
       (except_clauses EmptyDict (Some 500) (Some 400))"

text \<open>In \<open>moderate_topic\<close> the variable \<open>response\<close> holds the topic once it is fetched: the
  clauses see it when the deletion raises.\<close>

definition moderate_topic :: "env \<Rightarrow> desp_user option \<Rightarrow> string \<Rightarrow> desp_response io" where
  "moderate_topic E current_user topic_id =
     try_except
       (bind_io (ensure_user E current_user) (\<lambda>_.
        bind_io (get_discourse_topic E topic_id) (\<lambda>response.
        try_except
          (bind_io (delete_discourse_topic E topic_id) (\<lambda>_.
           bind_io (attr current_user) (\<lambda>user.
           bind_io (send_email_to_mq
             \<lparr>notification_type = ASSET_MODERATION_REJECTED, user_email = profile_email user,
              subject = ''Topic refused by moderation'',
              message = ''Topic has been refused by the moderation: '' @ t_title response,
              e_user_id = u_id user\<rparr>) (\<lambda>_.
           ret \<lparr>data = MessageData ''Topic moderated successfully'', error = None,
                http_status = None\<rparr>))))
          (except_clauses (DiscourseTopicData response) (Some 500) (Some 400)))))
       (except_clauses EmptyDict (Some 500) (Some 400))"

subsection \<open>Observations on the world\<close>

text \<open>The method and the path of the requests made to the platform, in their order.\<close>

fun forum_log :: "call list \<Rightarrow> (http_method \<times> string) list" where
  "forum_log [] = []"
| "forum_log (Forum rq # cs) = (rq_method rq, rq_path rq) # forum_log cs"
| "forum_log (c # cs) = forum_log cs"

text \<open>The addresses to which an email was requested.\<close>

fun recipients :: "call list \<Rightarrow> string list" where
  "recipients [] = []"
| "recipients (Email m # cs) = user_email m # recipients cs"
| "recipients (c # cs) = recipients cs"

text \<open>The titles of the topics that a response of \<open>GET /discussion/{asset_id}\<close> or of
  \<open>GET /topics/{slug}/{category}\<close> holds.\<close>

definition topic_titles :: "exn + desp_response \<Rightarrow> string list" where
  "topic_titles r =
     (case r of
        Inl _ \<Rightarrow> []
      | Inr d \<Rightarrow>
          (case data d of
             DiscussionData dr \<Rightarrow> map tr_title (dr_topics dr)
           | TopicsData ts \<Rightarrow> map tr_title ts
           | _ \<Rightarrow> []))"

text \<open>A computation is quiet when it calls no collaborator and leaves the rows alone. The
  notion serves the proofs: no operation of the service is defined with it.\<close>

definition quiet :: "'a io \<Rightarrow> bool" where
  "quiet m = (\<forall>w. calls (snd (m w)) = calls w \<and> rows (snd (m w)) = rows w)"

subsection \<open>Example environments\<close>

text \<open>Concrete collaborators, on which the properties below are instantiated.\<close>

definition empty_world :: world where
  "empty_world = \<lparr>rows = [], calls = [], logs = []\<rparr>"

definition ok_response :: "body \<Rightarrow> forum_response" where
  "ok_response b = \<lparr>url = ''https://forum.example'', status = 200, text_of = [], json = Some b\<rparr>"

definition no_service :: service_response where
  "no_service = \<lparr>s_status = 503, s_text = [], s_json = None\<rparr>"

text \<open>An environment whose platform answers every request with status 200 and a document
  without keys, and whose database accepts every statement.\<close>

definition plain_env :: env where
  "plain_env = \<lparr>discourse_host = ''https://forum.example'', api_key = ''key'',
     forum = (\<lambda>_ _. ok_response empty_body), integrity_error = (\<lambda>_ _. False),
     auth = (\<lambda>_ _. no_service), asset = (\<lambda>_ _. no_service),
     mq_accepts = (\<lambda>_ _. True), random_num = 42\<rparr>"

text \<open>The platform of the scenario of \<open>GET /discussion/{asset_id}\<close>: the category
  "Uncategorized" with id 1 is returned on creation, and its listing holds the topic
  "About the 1 category" and one topic written by the user test1.\<close>

definition uncategorized :: discourse_category where
  "uncategorized = \<lparr>c_id = 1, c_name = ''Uncategorized'', c_slug = ''uncategorized''\<rparr>"

definition about_topic :: listed_topic where
  "about_topic =
     \<lparr>topic = \<lparr>t_id = 66, t_title = ''About the 1 category'',
        t_fancy_title = ''About the 1 category'', t_slug = ''about-the-1-category'',
        t_posts_count = 1, t_created_at = ''2024-10-28T09:42:38.860Z'', t_category_id = 38,
        t_username = None\<rparr>,
      posters = Some [\<lparr>description = Some ''Original Poster, Most Recent Poster'',
                       user_id = Some (-1)\<rparr>]\<rparr>"

definition real_topic :: listed_topic where
  "real_topic =
     \<lparr>topic = \<lparr>t_id = 67, t_title = ''Test_ds: An awesome new topic'',
        t_fancy_title = ''Test_ds: An awesome new topic'',
        t_slug = ''test-ds-an-awesome-new-topic'', t_posts_count = 1,
        t_created_at = ''2024-10-28T09:56:31.565Z'', t_category_id = 38,
        t_username = None\<rparr>,
      posters = Some [\<lparr>description = Some ''Most Recent Poster'', user_id = Some 11\<rparr>,
                      \<lparr>description = Some ''Original Poster'', user_id = Some 10\<rparr>]\<rparr>"

definition listing :: body where
  "listing = empty_body\<lparr>users := Some [(10, ''test1''), (11, ''test2'')],
                         topic_list := Some [about_topic, real_topic]\<rparr>"

definition scenario_env :: env where
  "scenario_env = plain_env\<lparr>forum := (\<lambda>_ rq.
     if rq_path rq = ''/categories.json''
     then ok_response (empty_body\<lparr>category := Some uncategorized\<rparr>)
     else if rq_path rq = ''/c/uncategorized/1.json'' then ok_response listing
     else (ok_response empty_body)\<lparr>status := 404\<rparr>)\<rparr>"

text \<open>A platform that has lost a category: every \<open>GET\<close> is answered 404, and the
  creation of a category returns "Uncategorized".\<close>

definition lost_category_env :: env where
  "lost_category_env = plain_env\<lparr>forum := (\<lambda>_ rq.
     if rq_method rq = GET then (ok_response empty_body)\<lparr>status := 404\<rparr>
     else ok_response (empty_body\<lparr>category := Some uncategorized\<rparr>))\<rparr>"

text \<open>Two users, a post and a topic of the first, and a platform that answers every
  request with status 200 and a document that can be read as the post, as the edited
  post and as the topic; the auth service knows the caller with the role "User".\<close>

definition alice :: desp_user where
  "alice = \<lparr>u_id = ''alice-id'', u_username = ''alice'', u_displayName = ''Alice'',
            profile_email = ''alice@example.org''\<rparr>"

definition moderator :: desp_user where
  "moderator = \<lparr>u_id = ''moderator-id'', u_username = ''moderator'',
                u_displayName = ''Moderator'', profile_email = ''moderator@example.org''\<rparr>"

definition alice_post :: discourse_post where
  "alice_post = \<lparr>p_id = 5, p_name = ''Alice'', p_username = ''alice'',
     p_display_username = ''Alice'', p_user_id = 10, p_avatar_template = ''/a/{size}.png'',
     p_created_at = ''2024-10-28T09:56:31.565Z'', p_cooked = ''<p>An awesome first post</p>'',
     p_topic_id = 67\<rparr>"

definition full_body :: body where
  "full_body = empty_body\<lparr>as_post := Some alice_post,
     post_key := Some (alice_post\<lparr>p_cooked := ''<p>[Content has been blocked]</p>''\<rparr>),
     as_topic := Some (topic real_topic), created_by := Some (Some ''alice''),
     post_stream := Some [alice_post]\<rparr>"

definition profile_response :: "string list \<Rightarrow> service_response" where
  "profile_response rs = \<lparr>s_status = 200, s_text = [],
     s_json = Some \<lparr>roles = Some rs, profile_email_key = None, despUserId = None,
                    public_name = None\<rparr>\<rparr>"

definition forum_up_env :: env where
  "forum_up_env = plain_env\<lparr>forum := (\<lambda>_ _. ok_response full_body),
                            auth := (\<lambda>_ _. profile_response [''User''])\<rparr>"

text \<open>A platform in an outage that still answers the listing with a document, and one
  that answers with a page that is not JSON.\<close>

definition outage_env :: env where
  "outage_env = plain_env\<lparr>forum := (\<lambda>_ _. (ok_response listing)\<lparr>status := 503\<rparr>)\<rparr>"

definition outage_page_env :: env where
  "outage_page_env = plain_env\<lparr>forum := (\<lambda>_ _.
     \<lparr>url = ''https://forum.example'', status = 503,
      text_of = ''<html>Service Unavailable</html>'', json = None\<rparr>)\<rparr>"

text \<open>The platform of the two users with a queue that takes no message, and with an auth
  service that knows the caller with the role "Admin".\<close>

definition mq_down_env :: env where
  "mq_down_env = forum_up_env\<lparr>mq_accepts := (\<lambda>_ _. False)\<rparr>"

definition admin_env :: env where
  "admin_env = forum_up_env\<lparr>auth := (\<lambda>_ _. profile_response [''Admin''])\<rparr>"

text \<open>Two bodies of \<open>POST /topic\<close>, the first with a title of 14 characters, and a world
  in which the asset of the bodies has the category 38.\<close>

definition short_title_body :: create_topic_body where
  "short_title_body = \<lparr>tb_title = ''Fourteen chars'',
     tb_text = ''A text that is long enough.'', tb_asset_id = ''a1''\<rparr>"

definition topic_body :: create_topic_body where
  "topic_body = \<lparr>tb_title = ''An awesome new topic'',
     tb_text = ''A text that is long enough.'', tb_asset_id = ''a1''\<rparr>"

definition stored_world :: world where
  "stored_world = \<lparr>rows = [(''a1'', 38)], calls = [], logs = []\<rparr>"

subsection \<open>The username of a listed topic, as specified\<close>

text \<open>
  The specification of the username of a listed topic: the first poster whose
  description contains "Original Poster" is found, and the user table of the response
  (where a later entry for an id replaces an earlier one) gives the username of that
  poster's id; there is no username when no such poster exists, when the poster has no
  id or when the table has no entry for the id.
\<close>

definition original_poster_spec :: "(int \<times> string) list \<Rightarrow> poster list \<Rightarrow> string option" where
  "original_poster_spec user_table ps =
     (case find (\<lambda>p. sublist ''Original Poster''
                        (case description p of None \<Rightarrow> [] | Some d \<Rightarrow> d)) ps of
        None \<Rightarrow> None
      | Some p \<Rightarrow> (case user_id p of None \<Rightarrow> None | Some i \<Rightarrow> map_of (rev user_table) i))"

section \<open>Properties\<close>

lemmas io_defs = ret_def raise_def bind_io_def try_except_def log_error_def record_call_def
  forum_call_def not_awaited_def response_json_def item_def

lemmas status_defs = NOT_FOUND_def FORBIDDEN_def UNPROCESSABLE_ENTITY_def TOO_MANY_REQUESTS_def
  is_a_5xx_error_def ok_status_def

lemmas example_defs = plain_env_def empty_world_def ok_response_def empty_body_def
  uncategorized_def get_discourse_header_def

lemmas env_defs = forum_up_env_def mq_down_env_def admin_env_def profile_response_def
  full_body_def example_defs

lemmas run_defs = ensure_user_def get_category_asset_def db_execute_def get_first_record_def
  handle_response_error_def create_discourse_post_def create_discourse_topic_def
  get_discourse_topic_def get_discourse_post_def edit_discourse_post_def
  delete_discourse_topic_def get_current_user_roles_def auth_call_def service_json_def
  with_creator_def

lemmas len_defs = MIN_TITLE_SIZE_IN_CHAR_def MIN_CONTENT_SIZE_IN_CHAR_def

lemma str_int_1: "str_int 1 = ''1''"
  by (simp add: str_int_def str_nat.simps digit_char_def)

lemma bind_io_not_raise:
  "fst (m w) \<noteq> Inl e \<Longrightarrow> (\<And>a w'. fst (f a w') \<noteq> Inl e) \<Longrightarrow> fst (bind_io m f w) \<noteq> Inl e"
  by (cases "m w") (auto simp: bind_io_def split: sum.splits)

subsection \<open>The association store\<close>

text \<open>
  Claim C8. No call of \<open>set_category_asset\<close> lets an \<open>IntegrityError\<close> reach its caller;
  when the insert violates the integrity of the table, the function records the
  statement, logs "Failed to store category for asset", leaves the rows as they are and
  returns \<open>None\<close>.
\<close>

theorem set_category_asset_swallows_integrity_error:
  "fst (set_category_asset E category_id asset_id w) \<noteq> Inl IntegrityError \<and>
   (integrity_error E (Insert category_id asset_id) (rows w) \<longrightarrow>
      set_category_asset E category_id asset_id w =
        (Inr None,
         w\<lparr>calls := calls w @ [Db (Insert category_id asset_id)],
           logs := logs w @ [(''Failed to store category for asset %s'', [LStr asset_id])]\<rparr>))"
  by (simp add: set_category_asset_def db_execute_def io_defs Let_def)

theorem set_category_asset_swallows_integrity_error_witness:
  "integrity_error (plain_env\<lparr>integrity_error := (\<lambda>_ _. True)\<rparr>) (Insert 7 ''a1'')
     (rows empty_world) \<and>
   set_category_asset (plain_env\<lparr>integrity_error := (\<lambda>_ _. True)\<rparr>) 7 ''a1'' empty_world =
     (Inr None,
      \<lparr>rows = [], calls = [Db (Insert 7 ''a1'')],
       logs = [(''Failed to store category for asset %s'', [LStr ''a1''])]\<rparr>)"
  using set_category_asset_swallows_integrity_error
    [of "plain_env\<lparr>integrity_error := (\<lambda>_ _. True)\<rparr>" 7 "''a1''" empty_world]
  by (simp add: plain_env_def empty_world_def)

subsection \<open>Fetching a category\<close>

lemma handle_response_error_not_found:
  "fst (handle_response_error E response msg w) \<noteq> Inl DiscourseResourceUnavailableError"
  by (simp add: handle_response_error_def io_defs split: option.splits)

lemma set_category_asset_no_raise: "fst (set_category_asset E c a w) \<noteq> Inl e"
  by (simp add: set_category_asset_def db_execute_def io_defs Let_def)

lemma create_category_not_found:
  "fst (create_category E asset_id w) \<noteq> Inl DiscourseResourceUnavailableError"
  unfolding create_category_def
proof (intro bind_io_not_raise, goal_cases)
  case 1
  show ?case by (simp add: forum_call_def)
next
  case (2 response w1)
  show ?case by (simp add: handle_response_error_not_found ret_def)
next
  case (3 response w1 u w2)
  show ?case by (simp add: response_json_def ret_def raise_def split: option.splits)
next
  case (4 response w1 u w2 b w3)
  show ?case
  proof (cases "errors b")
    case (Some es)
    then show ?thesis by (simp add: raise_def)
  next
    case None
    show ?thesis unfolding None option.case
    proof (intro bind_io_not_raise, goal_cases)
      case 1
      show ?case by (simp add: item_def ret_def raise_def split: option.splits)
    next
      case 2
      show ?case by (rule set_category_asset_no_raise)
    next
      case 3
      show ?case by (simp add: ret_def)
    qed
  qed
qed

text \<open>
  Claim C4. When the platform answers the fetch of a category by id with status 404,
  \<open>get_discourse_category\<close> continues as \<open>create_category\<close> for the asset, once the fetch
  is recorded, and does not raise the not-found error
  \<open>DiscourseResourceUnavailableError\<close>.
\<close>

theorem get_discourse_category_not_found_creates:
  assumes "status (forum E (calls w)
             \<lparr>rq_method = GET, rq_path = ''/c/'' @ str_int cat @ ''/show.json'',
              rq_headers = get_discourse_header E ''system'', rq_params = [], rq_json = []\<rparr>)
           = NOT_FOUND"
  shows "get_discourse_category E (Some cat) asset_id w =
           create_category E asset_id
             (w\<lparr>calls := calls w @ [Forum
               \<lparr>rq_method = GET, rq_path = ''/c/'' @ str_int cat @ ''/show.json'',
                rq_headers = get_discourse_header E ''system'', rq_params = [],
                rq_json = []\<rparr>]\<rparr>) \<and>
         fst (get_discourse_category E (Some cat) asset_id w)
           \<noteq> Inl DiscourseResourceUnavailableError"
proof -
  have "get_discourse_category E (Some cat) asset_id w =
           create_category E asset_id
             (w\<lparr>calls := calls w @ [Forum
               \<lparr>rq_method = GET, rq_path = ''/c/'' @ str_int cat @ ''/show.json'',
                rq_headers = get_discourse_header E ''system'', rq_params = [],
                rq_json = []\<rparr>]\<rparr>)"
    using assms
    by (simp add: get_discourse_category_def handle_response_error_def io_defs status_defs)
  then show ?thesis
    by (simp add: create_category_not_found)
qed

theorem get_discourse_category_not_found_creates_witness:
  "status (forum lost_category_env (calls empty_world)
     \<lparr>rq_method = GET, rq_path = ''/c/'' @ str_int 1 @ ''/show.json'',
      rq_headers = get_discourse_header lost_category_env ''system'', rq_params = [],
      rq_json = []\<rparr>) = NOT_FOUND \<and>
   get_discourse_category lost_category_env (Some 1) ''a1'' empty_world =
     (Inr uncategorized,
      \<lparr>rows = [(''a1'', 1)],
       calls = [Forum \<lparr>rq_method = GET, rq_path = ''/c/1/show.json'',
                       rq_headers = get_discourse_header lost_category_env ''system'',
                       rq_params = [], rq_json = []\<rparr>,
                Forum \<lparr>rq_method = POST, rq_path = ''/categories.json'',
                       rq_headers = get_discourse_header lost_category_env ''system'',
                       rq_params = [], rq_json = [(''name'', ''42_a1'')]\<rparr>,
                Db (Insert 1 ''a1'')],
       logs = []\<rparr>)"
  using get_discourse_category_not_found_creates [of lost_category_env empty_world 1 "''a1''"]
  by (simp add: lost_category_env_def create_category_def set_category_asset_def db_execute_def
      example_defs io_defs status_defs str_int_1 str_nat.simps digit_char_def)

subsection \<open>Listing the topics of a category\<close>

lemma original_poster_eq_spec:
  "original_poster (map_of (rev us)) ps = original_poster_spec us ps"
  by (induction ps) (simp_all add: original_poster_spec_def)

text \<open>The user table gives a username only from one of its entries, and gives one for
  every id it holds.\<close>

lemma user_table_lookup:
  "(map_of (rev us) i = Some u \<longrightarrow> (i, u) \<in> set us) \<and>
   (map_of (rev us) i = None \<longleftrightarrow> i \<notin> fst ` set us)"
  by (auto simp: map_of_eq_None_iff dest: map_of_SomeD)

lemma about_not_default: "check_default_message ''About the 1 category'' = False"
  by (simp add: check_default_message_def pattern_def)

lemma real_not_default: "check_default_message ''Test_ds: An awesome new topic'' = False"
  by (simp add: check_default_message_def pattern_def)

lemma scenario_listing:
  "get_discourse_topics scenario_env ''uncategorized'' 1 w =
     (Inr [(topic about_topic)\<lparr>t_username := None\<rparr>,
           (topic real_topic)\<lparr>t_username := Some ''test1''\<rparr>],
      w\<lparr>calls := calls w @ [Forum \<lparr>rq_method = GET, rq_path = ''/c/uncategorized/1.json'',
                                    rq_headers = [], rq_params = [], rq_json = []\<rparr>]\<rparr>)"
  by (simp add: get_discourse_topics_def scenario_env_def listing_def about_topic_def
      real_topic_def enrich_def example_defs io_defs status_defs str_int_1 about_not_default
      real_not_default sublist_code)

text \<open>
  Claim C7. When \<open>get_discourse_topics\<close> returns, the platform's document has a topic
  list, and the topics returned are the listed topics that the filter keeps, in their
  order, each with the username that the specification gives: the username that the
  user table of the same document holds for the first poster of the topic whose
  description contains "Original Poster", and no username when there is no such poster.
\<close>

theorem get_discourse_topics_username:
  assumes "get_discourse_topics E slug category_id w = (Inr ts, w')"
  shows "\<exists>doc listed.
           json (forum E (calls w)
             \<lparr>rq_method = GET, rq_path = ''/c/'' @ slug @ ''/'' @ str_int category_id @ ''.json'',
              rq_headers = [], rq_params = [], rq_json = []\<rparr>) = Some doc \<and>
           topic_list doc = Some listed \<and>
           ts = map (\<lambda>lt. (topic lt)\<lparr>t_username :=
                  original_poster_spec (case users doc of None \<Rightarrow> [] | Some us \<Rightarrow> us)
                    (case posters lt of None \<Rightarrow> [] | Some ps \<Rightarrow> ps)\<rparr>)
                (filter (\<lambda>lt. \<not> check_default_message (t_title (topic lt))) listed)"
proof -
  let ?rq = "\<lparr>rq_method = GET, rq_path = ''/c/'' @ slug @ ''/'' @ str_int category_id @ ''.json'',
              rq_headers = [], rq_params = [], rq_json = []\<rparr>"
  obtain doc where d: "json (forum E (calls w) ?rq) = Some doc"
    using assms
    by (cases "json (forum E (calls w) ?rq)")
       (simp_all add: get_discourse_topics_def io_defs split: if_splits)
  obtain listed where l: "topic_list doc = Some listed"
    using assms d
    by (cases "topic_list doc")
       (simp_all add: get_discourse_topics_def io_defs split: if_splits)
  have "ts = map (enrich (map_of (rev (case users doc of None \<Rightarrow> [] | Some us \<Rightarrow> us))))
               (filter (\<lambda>lt. \<not> check_default_message (t_title (topic lt))) listed)"
    using assms d l
    by (simp add: get_discourse_topics_def io_defs split: if_splits)
  then show ?thesis using d l
    by (simp add: enrich_def original_poster_eq_spec)
qed

theorem get_discourse_topics_username_witness:
  "get_discourse_topics scenario_env ''uncategorized'' 1 empty_world =
     (Inr [(topic about_topic)\<lparr>t_username := None\<rparr>,
           (topic real_topic)\<lparr>t_username := Some ''test1''\<rparr>],
      empty_world\<lparr>calls := calls empty_world @
        [Forum \<lparr>rq_method = GET, rq_path = ''/c/uncategorized/1.json'',
                rq_headers = [], rq_params = [], rq_json = []\<rparr>]\<rparr>) \<and>
   (\<exists>doc listed.
      json (forum scenario_env (calls empty_world)
        \<lparr>rq_method = GET, rq_path = ''/c/'' @ ''uncategorized'' @ ''/'' @ str_int 1 @ ''.json'',
         rq_headers = [], rq_params = [], rq_json = []\<rparr>) = Some doc \<and>
      topic_list doc = Some listed \<and>
      [(topic about_topic)\<lparr>t_username := None\<rparr>,
       (topic real_topic)\<lparr>t_username := Some ''test1''\<rparr>] =
        map (\<lambda>lt. (topic lt)\<lparr>t_username :=
               original_poster_spec (case users doc of None \<Rightarrow> [] | Some us \<Rightarrow> us)
                 (case posters lt of None \<Rightarrow> [] | Some ps \<Rightarrow> ps)\<rparr>)
            (filter (\<lambda>lt. \<not> check_default_message (t_title (topic lt))) listed))"
  using get_discourse_topics_username [OF scenario_listing [of empty_world]] scenario_listing
  by blast

subsection \<open>The discussion of an asset\<close>

lemma scenario_discussion:
  "get_category scenario_env ''00000000-00b0-00bb-b00b-00b000000000'' empty_world =
   (Inr \<lparr>data = DiscussionData
           \<lparr>dr_id = 1, dr_name = ''Uncategorized'',
            dr_topics =
              [\<lparr>tr_posts = [], tr_id = 66, tr_title = ''About the 1 category'',
                tr_fancy_title = ''About the 1 category'', tr_posts_count = 1,
                tr_created_at = ''2024-10-28T09:42:38.860Z'', tr_slug = ''about-the-1-category'',
                tr_category_id = 38, tr_username = None\<rparr>,
               \<lparr>tr_posts = [], tr_id = 67, tr_title = ''Test_ds: An awesome new topic'',
                tr_fancy_title = ''Test_ds: An awesome new topic'', tr_posts_count = 1,
                tr_created_at = ''2024-10-28T09:56:31.565Z'',
                tr_slug = ''test-ds-an-awesome-new-topic'',
                tr_category_id = 38, tr_username = Some ''test1''\<rparr>]\<rparr>,
         error = None, http_status = None\<rparr>,
    \<lparr>rows = [(''00000000-00b0-00bb-b00b-00b000000000'', 1)],
     calls = [Db (Select ''00000000-00b0-00bb-b00b-00b000000000''),
              Forum \<lparr>rq_method = POST, rq_path = ''/categories.json'',
                     rq_headers = [(''Api-Key'', ''key''), (''Api-Username'', ''system''),
                                   (''Accept'', ''application/json'')],
                     rq_params = [],
                     rq_json = [(''name'', ''42_00000000-00b0-00bb-b00b-00b000000000'')]\<rparr>,
              Db (Insert 1 ''00000000-00b0-00bb-b00b-00b000000000''),
              Forum \<lparr>rq_method = GET, rq_path = ''/c/uncategorized/1.json'',
                     rq_headers = [], rq_params = [], rq_json = []\<rparr>],
     logs = []\<rparr>)"
  by (simp add: get_category_def get_category_asset_def get_discourse_category_def
      create_category_def set_category_asset_def db_execute_def get_discourse_topics_def
      handle_response_error_def scenario_env_def listing_def about_topic_def real_topic_def
      get_first_record_def discussion_from_reply_def topic_from_reply_def
      enrich_def except_clauses_def str_nat.simps digit_char_def example_defs
      io_defs status_defs str_int_1 about_not_default real_not_default Let_def sublist_code)

text \<open>
  Claim C1, as stated, fails: in the scenario (no association row; the platform answers
  200 with the category of id 1 named "Uncategorized" and with a listing of the topic
  "About the 1 category" and of one real topic) the topic "About the 1 category" is in
  the response, whose topics are not the real topic alone.
\<close>

theorem get_category_scenario_counterexample:
  "''About the 1 category'' \<in> set (topic_titles
     (fst (get_category scenario_env ''00000000-00b0-00bb-b00b-00b000000000'' empty_world))) \<and>
   topic_titles
     (fst (get_category scenario_env ''00000000-00b0-00bb-b00b-00b000000000'' empty_world))
     \<noteq> [''Test_ds: An awesome new topic'']"
  by (simp add: scenario_discussion topic_titles_def)

text \<open>
  Claim C1, amended. The title "About the 1 category" does not match the pattern of the
  filter, which asks for digits, an underscore and a run of the characters of a UUID
  after "About the"; in the scenario the response data has id 1, the name
  "Uncategorized" and both topics, the topic "About the 1 category" first.
\<close>

theorem get_category_scenario_keeps_both_topics:
  "check_default_message ''About the 1 category'' = False \<and>
   fst (get_category scenario_env ''00000000-00b0-00bb-b00b-00b000000000'' empty_world) =
   Inr \<lparr>data = DiscussionData
           \<lparr>dr_id = 1, dr_name = ''Uncategorized'',
            dr_topics =
              [\<lparr>tr_posts = [], tr_id = 66, tr_title = ''About the 1 category'',
                tr_fancy_title = ''About the 1 category'', tr_posts_count = 1,
                tr_created_at = ''2024-10-28T09:42:38.860Z'', tr_slug = ''about-the-1-category'',
                tr_category_id = 38, tr_username = None\<rparr>,
               \<lparr>tr_posts = [], tr_id = 67, tr_title = ''Test_ds: An awesome new topic'',
                tr_fancy_title = ''Test_ds: An awesome new topic'', tr_posts_count = 1,
                tr_created_at = ''2024-10-28T09:56:31.565Z'',
                tr_slug = ''test-ds-an-awesome-new-topic'',
                tr_category_id = 38, tr_username = Some ''test1''\<rparr>]\<rparr>,
         error = None, http_status = None\<rparr>"
  by (simp add: scenario_discussion about_not_default)

subsection \<open>What an operation adds to the calls\<close>

lemma quiet_ret: "quiet (ret a)"
  by (simp add: quiet_def ret_def)
lemma quiet_raise: "quiet (raise e)"
  by (simp add: quiet_def raise_def)
lemma quiet_log_error: "quiet (log_error f a)"
  by (simp add: quiet_def log_error_def)
lemma quiet_item: "quiet (item v)"
  by (cases v) (simp_all add: item_def quiet_ret quiet_raise)
lemma quiet_response_json: "quiet (response_json r)"
  by (cases "json r") (simp_all add: response_json_def quiet_ret quiet_raise)
lemma quiet_service_json: "quiet (service_json r)"
  by (cases "s_json r") (simp_all add: service_json_def quiet_ret quiet_raise)

lemma quiet_bind: "quiet m \<Longrightarrow> (\<And>a. quiet (f a)) \<Longrightarrow> quiet (bind_io m f)"
  unfolding quiet_def
proof (intro allI)
  fix w assume m: "\<forall>w. calls (snd (m w)) = calls w \<and> rows (snd (m w)) = rows w"
    and f: "\<And>a. \<forall>w. calls (snd (f a w)) = calls w \<and> rows (snd (f a w)) = rows w"
  obtain r w' where mw: "m w = (r, w')" by (cases "m w")
  with m [rule_format, of w] have w': "calls w' = calls w" "rows w' = rows w" by simp_all
  show "calls (snd (bind_io m f w)) = calls w \<and> rows (snd (bind_io m f w)) = rows w"
  proof (cases r)
    case (Inl e) with mw w' show ?thesis by (simp add: bind_io_def)
  next
    case (Inr a) with mw w' f [of a, rule_format, of w'] show ?thesis by (simp add: bind_io_def)
  qed
qed

lemma quiet_try: "quiet m \<Longrightarrow> (\<And>e. quiet (h e)) \<Longrightarrow> quiet (try_except m h)"
  unfolding quiet_def
proof (intro allI)
  fix w assume m: "\<forall>w. calls (snd (m w)) = calls w \<and> rows (snd (m w)) = rows w"
    and f: "\<And>a. \<forall>w. calls (snd (h a w)) = calls w \<and> rows (snd (h a w)) = rows w"
  obtain r w' where mw: "m w = (r, w')" by (cases "m w")
  with m [rule_format, of w] have w': "calls w' = calls w" "rows w' = rows w" by simp_all
  show "calls (snd (try_except m h w)) = calls w \<and> rows (snd (try_except m h w)) = rows w"
  proof (cases r)
    case (Inr e) with mw w' show ?thesis by (simp add: try_except_def)
  next
    case (Inl a) with mw w' f [of a, rule_format, of w'] show ?thesis by (simp add: try_except_def)
  qed
qed

lemma quiet_if: "quiet a \<Longrightarrow> quiet b \<Longrightarrow> quiet (if c then a else b)"
  by simp

lemma quiet_case_option:
  "quiet a \<Longrightarrow> (\<And>x. quiet (f x)) \<Longrightarrow> quiet (case v of None \<Rightarrow> a | Some x \<Rightarrow> f x)"
  by (cases v) simp_all

lemmas quiet_intros = quiet_bind quiet_try quiet_if quiet_case_option quiet_ret quiet_raise
  quiet_log_error quiet_item quiet_response_json quiet_service_json

lemma quiet_handle_response_error: "quiet (handle_response_error E r m)"
  unfolding handle_response_error_def by (intro quiet_intros)

lemma quiet_with_creator: "quiet (with_creator b)"
  unfolding with_creator_def by (intro quiet_intros)

lemma after_forum_call:
  assumes "\<And>a. quiet (f a)"
  shows "calls (snd (bind_io (forum_call E rq) f w)) = calls w @ [Forum rq] \<and>
         rows (snd (bind_io (forum_call E rq) f w)) = rows w"
  using assms [unfolded quiet_def, rule_format, of "forum E (calls w) rq"
      "w\<lparr>calls := calls w @ [Forum rq]\<rparr>"]
  by (simp add: bind_io_def forum_call_def)

lemma forum_log_append: "forum_log (cs @ ds) = forum_log cs @ forum_log ds"
  by (induction cs rule: forum_log.induct) simp_all

lemma ensure_user_frame:
  "forum_log (calls (snd (ensure_user E (Some u) w))) =
     forum_log (calls w) @ [(POST, ''/users.json'')] \<and>
   rows (snd (ensure_user E (Some u) w)) = rows w"
  unfolding ensure_user_def option.case
  by (subst after_forum_call [THEN conjunct1], rule quiet_handle_response_error,
      subst after_forum_call [THEN conjunct2], rule quiet_handle_response_error)
     (simp add: forum_log_append)

lemma get_discourse_topic_frame:
  "forum_log (calls (snd (get_discourse_topic E topic_id w))) =
     forum_log (calls w) @ [(GET, ''/t/'' @ topic_id @ ''.json'')] \<and>
   rows (snd (get_discourse_topic E topic_id w)) = rows w"
proof -
  have q: "\<And>response. quiet (bind_io (if \<not> ok_status (status response)
              then handle_response_error E response ''Fetching topic'' else ret ()) (\<lambda>_.
     bind_io (response_json response) (\<lambda>topic_data.
     with_creator topic_data)))"
    by (intro quiet_intros quiet_handle_response_error quiet_with_creator)
  show ?thesis
    unfolding get_discourse_topic_def
    using after_forum_call [OF q]
    by (simp add: forum_log_append)
qed

lemma forum_log_snoc_other [simp]:
  "forum_log (cs @ [Db op]) = forum_log cs" "forum_log (cs @ [Auth p]) = forum_log cs"
  "forum_log (cs @ [Asset p]) = forum_log cs" "forum_log (cs @ [Mq m]) = forum_log cs"
  "forum_log (cs @ [Email e]) = forum_log cs"
  by (simp_all add: forum_log_append)

lemma get_category_asset_frame:
  "forum_log (calls (snd (get_category_asset E asset_id w))) = forum_log (calls w) \<and>
   rows (snd (get_category_asset E asset_id w)) = rows w"
  by (simp add: get_category_asset_def db_execute_def io_defs Let_def)

lemma get_current_user_roles_frame:
  "forum_log (calls (snd (get_current_user_roles E w))) = forum_log (calls w) \<and>
   rows (snd (get_current_user_roles E w)) = rows w"
proof -
  have q: "\<And>response. quiet (if s_status response = HTTP_STATUS_UNAUTHORIZED then
          bind_io (log_error ''User is not logged in'' []) (\<lambda>_.
          raise (UserNotLoggedInError ''User is not logged in''))
        else if s_status response = HTTP_STATUS_OK then
          bind_io (service_json response) (\<lambda>response_json.
          bind_io (item (roles response_json)) (\<lambda>rs.
          ret (Some rs)))
        else ret None)"
    by (intro quiet_intros)
  have h: "\<And>e. quiet (bind_io (log_error ''Failed to get current user roles'' []) (\<lambda>_.
            raise (DiscourseRequestError ''Failed to get current user roles'') :: string list option io))"
    by (intro quiet_intros)
  obtain r w' where run: "(if s_status (auth E (calls w) ''/profile'') = HTTP_STATUS_UNAUTHORIZED then
          bind_io (log_error ''User is not logged in'' []) (\<lambda>_.
          raise (UserNotLoggedInError ''User is not logged in''))
        else if s_status (auth E (calls w) ''/profile'') = HTTP_STATUS_OK then
          bind_io (service_json (auth E (calls w) ''/profile'')) (\<lambda>response_json.
          bind_io (item (roles response_json)) (\<lambda>rs.
          ret (Some rs)))
        else ret None) (w\<lparr>calls := calls w @ [Auth ''/profile'']\<rparr>) = (r, w')"
    by fastforce
  from q [unfolded quiet_def, rule_format, of "auth E (calls w) ''/profile''"
      "w\<lparr>calls := calls w @ [Auth ''/profile'']\<rparr>"] run
  have w': "calls w' = calls w @ [Auth ''/profile'']" "rows w' = rows w" by simp_all
  show ?thesis
  proof (cases r)
    case (Inr a)
    with run w' show ?thesis
      by (simp add: get_current_user_roles_def auth_call_def bind_io_def try_except_def)
  next
    case (Inl e)
    with run w' h [unfolded quiet_def, rule_format, of w'] show ?thesis
      by (simp add: get_current_user_roles_def auth_call_def bind_io_def try_except_def)
  qed
qed

lemma create_discourse_post_frame:
  "forum_log (calls (snd (create_discourse_post E username topic_id text w))) =
     forum_log (calls w) @ [(POST, ''/posts.json'')] \<and>
   rows (snd (create_discourse_post E username topic_id text w)) = rows w"
proof -
  have q: "\<And>response. quiet (bind_io (if \<not> ok_status (status response)
              then handle_response_error E response ''Post creation'' else ret ()) (\<lambda>_.
     response_json response))"
    by (intro quiet_intros quiet_handle_response_error)
  show ?thesis
    unfolding create_discourse_post_def
    using after_forum_call [OF q]
    by (simp add: forum_log_append)
qed

lemma create_discourse_topic_frame:
  "forum_log (calls (snd (create_discourse_topic E username category_id title text w))) =
     forum_log (calls w) @ [(POST, ''/posts.json'')] \<and>
   rows (snd (create_discourse_topic E username category_id title text w)) = rows w"
proof -
  have q: "\<And>response. quiet (bind_io (if \<not> ok_status (status response)
              then handle_response_error E response ''Topic creation'' else ret ()) (\<lambda>_.
     bind_io (response_json response) (\<lambda>topic_response.
     case error_key topic_response of
       None \<Rightarrow> item (as_post topic_response)
     | Some es \<Rightarrow> raise (DiscourseRequestError (join ''-'' es)))))"
    by (intro quiet_intros quiet_handle_response_error)
  show ?thesis
    unfolding create_discourse_topic_def
    using after_forum_call [OF q]
    by (simp add: forum_log_append)
qed

lemma delete_discourse_topic_frame:
  "forum_log (calls (snd (delete_discourse_topic E topic_id w))) =
     forum_log (calls w) @ [(DELETE, ''/t/'' @ topic_id @ ''.json'')] \<and>
   rows (snd (delete_discourse_topic E topic_id w)) = rows w"
proof -
  have q: "\<And>response. quiet (if \<not> ok_status (status response)
     then handle_response_error E response ''Topic deletion'' else ret ())"
    by (intro quiet_intros quiet_handle_response_error)
  show ?thesis
    unfolding delete_discourse_topic_def
    using after_forum_call [OF q]
    by (simp add: forum_log_append)
qed

subsection \<open>A platform outage\<close>

lemma is_a_5xx_error_status:
  "is_a_5xx_error st \<Longrightarrow> \<not> ok_status st \<and> st \<noteq> NOT_FOUND"
  by (auto simp: status_defs)

lemma handle_response_error_5xx:
  "is_a_5xx_error (status r) \<Longrightarrow>
   fst (handle_response_error E r m w) = Inl (DiscourseUnavailableError m)"
  by (simp add: handle_response_error_def io_defs)

text \<open>The route of a topic with its posts awaits the classifier: an outage of the platform
  gives the generic message.\<close>

lemma get_topic_5xx:
  assumes "is_a_5xx_error (status (forum E (calls w)
     \<lparr>rq_method = GET, rq_path = ''/t/'' @ topic_id @ ''.json'',
      rq_headers = get_discourse_header E ''system'', rq_params = [(''print'', ''true'')],
      rq_json = []\<rparr>))"
  shows "fst (get_topic E topic_id w) =
     Inr \<lparr>data = EmptyDict, error = Some DEFAULT_INTERNAL_ERROR_MESSAGE, http_status = None\<rparr>"
  using assms is_a_5xx_error_status [OF assms]
  by (simp add: get_topic_def get_discourse_posts_def handle_response_error_def
      except_clauses_def io_defs)

text \<open>The route of the listing never gives a message on an outage: it raises an
  exception that is not one of the service, or it returns what the document holds.\<close>

lemma get_topics_5xx_no_message:
  assumes "is_a_5xx_error (status (forum E (calls w)
     \<lparr>rq_method = GET, rq_path = ''/c/'' @ slug @ ''/'' @ str_int category_id @ ''.json'',
      rq_headers = [], rq_params = [], rq_json = []\<rparr>))"
    and "fst (get_topics E slug category_id w) = Inr r"
  shows "error r = None"
  using assms is_a_5xx_error_status [OF assms(1)]
  by (auto simp: get_topics_def get_discourse_topics_def get_topics_except_def io_defs
      split: option.splits)

text \<open>
  Claim C2 fails on the listing of topics, where \<open>handle_response_error\<close> is called and
  not awaited. When the platform answers the listing with status 503 and a document
  that holds a topic list, \<open>GET /topics/{slug}/{category}\<close> returns the topics of that
  document and no error; when it answers 503 with a page that is not JSON, the route
  raises the error of \<open>response.json()\<close>. In neither case is the generic internal error
  message returned.
\<close>

theorem get_topics_outage_not_classified:
  "fst (get_topics outage_env ''uncategorized'' 1 empty_world) =
     Inr \<lparr>data = TopicsData
             [\<lparr>tr_posts = [], tr_id = 66, tr_title = ''About the 1 category'',
               tr_fancy_title = ''About the 1 category'', tr_posts_count = 1,
               tr_created_at = ''2024-10-28T09:42:38.860Z'', tr_slug = ''about-the-1-category'',
               tr_category_id = 38, tr_username = None\<rparr>,
              \<lparr>tr_posts = [], tr_id = 67, tr_title = ''Test_ds: An awesome new topic'',
               tr_fancy_title = ''Test_ds: An awesome new topic'', tr_posts_count = 1,
               tr_created_at = ''2024-10-28T09:56:31.565Z'',
               tr_slug = ''test-ds-an-awesome-new-topic'',
               tr_category_id = 38, tr_username = Some ''test1''\<rparr>],
           error = None, http_status = None\<rparr> \<and>
   fst (get_topics outage_page_env ''uncategorized'' 1 empty_world) =
     Inl (PyError ''ContentTypeError'')"
  by (simp add: get_topics_def get_discourse_topics_def get_topics_except_def
      outage_env_def outage_page_env_def listing_def about_topic_def real_topic_def
      enrich_def topic_from_reply_def example_defs io_defs status_defs str_int_1
      about_not_default real_not_default sublist_code)

subsection \<open>Creating a topic\<close>

text \<open>
  Claim C5. A \<open>POST /topic\<close> whose title has fewer than 15 characters or whose text has
  fewer than 20 characters is answered, for a request that carries a user, with status
  400 and the message of the title when the title is too short, of the text otherwise;
  whoever the current user is, the calls made to collaborators and the rows of the
  association table are what they were before the request.
\<close>

theorem create_topic_too_short:
  assumes "length (tb_title b) < 15 \<or> length (tb_text b) < 20"
  shows "create_topic E (Some user) b w =
           (Inr \<lparr>data = EmptyDict,
                 error = Some (if length (tb_title b) < 15 then TITLE_TOO_SHORT
                               else CONTENT_TOO_SHORT),
                 http_status = Some 400\<rparr>,
            w\<lparr>logs := logs w @
               [if length (tb_title b) < 15
                then (''Title is too short '' @ quote @ ''%s'' @ quote, [LStr (tb_title b)])
                else (''Text is too short '' @ quote @ ''%s'' @ quote, [LStr (tb_text b)])]\<rparr>) \<and>
         calls (snd (create_topic E current_user b w)) = calls w \<and>
         rows (snd (create_topic E current_user b w)) = rows w"
  using assms
  by (cases current_user) (auto simp: create_topic_def attr_def len_defs io_defs)

theorem create_topic_too_short_witness:
  "(length (tb_title short_title_body) < 15 \<or> length (tb_text short_title_body) < 20) \<and>
   create_topic plain_env (Some alice) short_title_body empty_world =
     (Inr \<lparr>data = EmptyDict, error = Some TITLE_TOO_SHORT, http_status = Some 400\<rparr>,
      \<lparr>rows = [], calls = [],
       logs = [(''Title is too short '' @ quote @ ''%s'' @ quote, [LStr ''Fourteen chars''])]\<rparr>)"
  using create_topic_too_short [of short_title_body plain_env alice empty_world None]
  by (simp add: short_title_body_def empty_world_def)

text \<open>
  Claim C10. For a \<open>POST /topic\<close> that passes the two length checks and whose user is
  provisioned, when the association store returns no category for the asset the route
  answers with status 500 and the data \<open>{"Error": "Topic creation Failed. Category_id
  for asset ... is missing."}\<close>; the only request made to the platform is the
  provisioning of the user (no category and no topic is created), and no row is added.
\<close>

theorem create_topic_missing_category:
  assumes "15 \<le> length (tb_title b)" and "20 \<le> length (tb_text b)"
    and "ensure_user E (Some user) w = (Inr (), w1)"
    and "get_category_asset E (tb_asset_id b) w1 = (Inr None, w2)"
  shows "create_topic E (Some user) b w =
           (Inr \<lparr>data = ErrorData (''Topic creation Failed. Category_id for asset ''
                          @ tb_asset_id b @ '' is missing.''),
                 error = None, http_status = Some 500\<rparr>, w2) \<and>
         forum_log (calls w2) = forum_log (calls w) @ [(POST, ''/users.json'')] \<and>
         rows w2 = rows w"
proof -
  have "create_topic E (Some user) b w =
           (Inr \<lparr>data = ErrorData (''Topic creation Failed. Category_id for asset ''
                          @ tb_asset_id b @ '' is missing.''),
                 error = None, http_status = Some 500\<rparr>, w2)"
    using assms
    by (simp add: create_topic_def attr_def len_defs ret_def bind_io_def try_except_def)
  moreover have "forum_log (calls w2) = forum_log (calls w) @ [(POST, ''/users.json'')]"
    "rows w2 = rows w"
    using ensure_user_frame [of E user w] get_category_asset_frame [of E "tb_asset_id b" w1]
      assms(3,4)
    by simp_all
  ultimately show ?thesis by simp
qed

theorem create_topic_missing_category_witness:
  "15 \<le> length (tb_title topic_body) \<and> 20 \<le> length (tb_text topic_body) \<and>
   fst (ensure_user plain_env (Some alice) empty_world) = Inr () \<and>
   fst (get_category_asset plain_env (tb_asset_id topic_body)
          (snd (ensure_user plain_env (Some alice) empty_world))) = Inr None \<and>
   fst (create_topic plain_env (Some alice) topic_body empty_world) =
     Inr \<lparr>data = ErrorData ''Topic creation Failed. Category_id for asset a1 is missing.'',
           error = None, http_status = Some 500\<rparr> \<and>
   forum_log (calls (snd (create_topic plain_env (Some alice) topic_body empty_world))) =
     [(POST, ''/users.json'')] \<and>
   rows (snd (create_topic plain_env (Some alice) topic_body empty_world)) = []"
proof -
  let ?w1 = "snd (ensure_user plain_env (Some alice) empty_world)"
  let ?w2 = "snd (get_category_asset plain_env (tb_asset_id topic_body) ?w1)"
  have len: "15 \<le> length (tb_title topic_body)" "20 \<le> length (tb_text topic_body)"
    by (simp_all add: topic_body_def)
  have h1: "ensure_user plain_env (Some alice) empty_world = (Inr (), ?w1)"
    by (simp add: run_defs env_defs io_defs status_defs)
  have h2: "get_category_asset plain_env (tb_asset_id topic_body) ?w1 = (Inr None, ?w2)"
    by (simp add: run_defs env_defs io_defs status_defs)
  have f1: "fst (ensure_user plain_env (Some alice) empty_world) = Inr ()"
    using h1 by (simp add: prod_eq_iff)
  have f2: "fst (get_category_asset plain_env (tb_asset_id topic_body) ?w1) = Inr None"
    using h2 by (simp add: prod_eq_iff)
  from create_topic_missing_category [OF len h1 h2] len f1 f2 show ?thesis
    by (simp add: topic_body_def empty_world_def)
qed

subsection \<open>Publishing to moderation\<close>

text \<open>
  Claim C9. When the queue does not take the moderation event of a created post,
  \<open>POST /topic/{topic_id}\<close> logs the failure and raises \<open>SendPostModerationError\<close>, which
  no \<open>except\<close> clause of the route catches; after the creation of the post the only call
  made is the attempt to publish. The same holds for \<open>POST /topic\<close> when the queue does
  not take the event of the topic, or takes it and does not take the event of the first
  post. In both routes the requests made to the platform are the provisioning of the
  user and the creation: nothing deletes or edits the content created.
\<close>

theorem moderation_send_failure_not_compensated:
  "(ensure_user E (Some user) w = (Inr (), w1) \<and>
    create_discourse_post E (u_username user) topic_id body_text w1 = (Inr doc, w2) \<and>
    as_post doc = Some created \<and>
    \<not> mq_accepts E (calls w2) (ValidatePostMessage (p_id created) body_text user)
    \<longrightarrow>
    create_post E (Some user) topic_id body_text w =
      (Inl SendPostModerationError,
       w2\<lparr>calls := calls w2 @ [Mq (ValidatePostMessage (p_id created) body_text user)],
          logs := logs w2 @ [(''Failed to send data to MQ %s'',
                              [LMsg (ValidatePostMessage (p_id created) body_text user)])]\<rparr>) \<and>
    forum_log (calls w2) =
      forum_log (calls w) @ [(POST, ''/users.json''), (POST, ''/posts.json'')])
   \<and>
   (15 \<le> length (tb_title b) \<and> 20 \<le> length (tb_text b) \<and>
    ensure_user E' (Some user') v = (Inr (), v1) \<and>
    get_category_asset E' (tb_asset_id b) v1 = (Inr (Some cat), v2) \<and>
    create_discourse_topic E' (u_username user') cat (tb_title b) (tb_text b) v2
      = (Inr post, v3) \<and>
    (\<not> mq_accepts E' (calls v3) (ValidateTopicMessage (p_topic_id post) (tb_title b) user') \<or>
     \<not> mq_accepts E'
          (calls v3 @ [Mq (ValidateTopicMessage (p_topic_id post) (tb_title b) user')])
          (ValidatePostMessage (p_id post) (tb_text b) user'))
    \<longrightarrow>
    create_topic E' (Some user') b v =
      (Inl SendPostModerationError,
       if \<not> mq_accepts E' (calls v3)
              (ValidateTopicMessage (p_topic_id post) (tb_title b) user')
       then v3\<lparr>calls := calls v3 @
                   [Mq (ValidateTopicMessage (p_topic_id post) (tb_title b) user')],
               logs := logs v3 @ [(''Failed to send data to MQ %s'',
                 [LMsg (ValidateTopicMessage (p_topic_id post) (tb_title b) user')])]\<rparr>
       else v3\<lparr>calls := calls v3 @
                   [Mq (ValidateTopicMessage (p_topic_id post) (tb_title b) user'),
                    Mq (ValidatePostMessage (p_id post) (tb_text b) user')],
               logs := logs v3 @ [(''Failed to send data to MQ %s'',
                 [LMsg (ValidatePostMessage (p_id post) (tb_text b) user')])]\<rparr>) \<and>
    forum_log (calls v3) =
      forum_log (calls v) @ [(POST, ''/users.json''), (POST, ''/posts.json'')])"
proof (intro conjI impI)
  assume a: "ensure_user E (Some user) w = (Inr (), w1) \<and>
    create_discourse_post E (u_username user) topic_id body_text w1 = (Inr doc, w2) \<and>
    as_post doc = Some created \<and>
    \<not> mq_accepts E (calls w2) (ValidatePostMessage (p_id created) body_text user)"
  then show "create_post E (Some user) topic_id body_text w =
      (Inl SendPostModerationError,
       w2\<lparr>calls := calls w2 @ [Mq (ValidatePostMessage (p_id created) body_text user)],
          logs := logs w2 @ [(''Failed to send data to MQ %s'',
                              [LMsg (ValidatePostMessage (p_id created) body_text user)])]\<rparr>)"
    by (simp add: create_post_def attr_def send_post_to_moderation_def send_mq_message_def
        post_from_reply_def except_clauses_def item_def ret_def raise_def bind_io_def
        try_except_def log_error_def Let_def)
  from a show "forum_log (calls w2) =
      forum_log (calls w) @ [(POST, ''/users.json''), (POST, ''/posts.json'')]"
    using ensure_user_frame [of E user w]
      create_discourse_post_frame [of E "u_username user" topic_id body_text w1]
    by simp
next
  assume a: "15 \<le> length (tb_title b) \<and> 20 \<le> length (tb_text b) \<and>
    ensure_user E' (Some user') v = (Inr (), v1) \<and>
    get_category_asset E' (tb_asset_id b) v1 = (Inr (Some cat), v2) \<and>
    create_discourse_topic E' (u_username user') cat (tb_title b) (tb_text b) v2
      = (Inr post, v3) \<and>
    (\<not> mq_accepts E' (calls v3) (ValidateTopicMessage (p_topic_id post) (tb_title b) user') \<or>
     \<not> mq_accepts E'
          (calls v3 @ [Mq (ValidateTopicMessage (p_topic_id post) (tb_title b) user')])
          (ValidatePostMessage (p_id post) (tb_text b) user'))"
  then show "create_topic E' (Some user') b v =
      (Inl SendPostModerationError,
       if \<not> mq_accepts E' (calls v3)
              (ValidateTopicMessage (p_topic_id post) (tb_title b) user')
       then v3\<lparr>calls := calls v3 @
                   [Mq (ValidateTopicMessage (p_topic_id post) (tb_title b) user')],
               logs := logs v3 @ [(''Failed to send data to MQ %s'',
                 [LMsg (ValidateTopicMessage (p_topic_id post) (tb_title b) user')])]\<rparr>
       else v3\<lparr>calls := calls v3 @
                   [Mq (ValidateTopicMessage (p_topic_id post) (tb_title b) user'),
                    Mq (ValidatePostMessage (p_id post) (tb_text b) user')],
               logs := logs v3 @ [(''Failed to send data to MQ %s'',
                 [LMsg (ValidatePostMessage (p_id post) (tb_text b) user')])]\<rparr>)"
    by (simp add: create_topic_def attr_def send_post_to_moderation_def
        send_topic_to_moderation_def send_mq_message_def len_defs
        post_from_reply_def except_clauses_def ret_def raise_def bind_io_def
        try_except_def log_error_def Let_def)
  from a show "forum_log (calls v3) =
      forum_log (calls v) @ [(POST, ''/users.json''), (POST, ''/posts.json'')]"
    using ensure_user_frame [of E' user' v] get_category_asset_frame [of E' "tb_asset_id b" v1]
      create_discourse_topic_frame [of E' "u_username user'" cat "tb_title b" "tb_text b" v2]
    by simp
qed

theorem moderation_send_failure_not_compensated_witness:
  "fst (ensure_user mq_down_env (Some alice) empty_world) = Inr () \<and>
   fst (create_discourse_post mq_down_env ''alice'' ''67'' ''Thanks for this topic''
          (snd (ensure_user mq_down_env (Some alice) empty_world))) = Inr full_body \<and>
   as_post full_body = Some alice_post \<and>
   fst (create_post mq_down_env (Some alice) ''67'' ''Thanks for this topic'' empty_world) =
     Inl SendPostModerationError \<and>
   forum_log (calls (snd (create_post mq_down_env (Some alice) ''67''
     ''Thanks for this topic'' empty_world))) =
     [(POST, ''/users.json''), (POST, ''/posts.json'')] \<and>
   logs (snd (create_post mq_down_env (Some alice) ''67'' ''Thanks for this topic''
     empty_world)) =
     [(''Failed to send data to MQ %s'',
       [LMsg (ValidatePostMessage 5 ''Thanks for this topic'' alice)])] \<and>
   fst (create_topic mq_down_env (Some alice) topic_body stored_world) =
     Inl SendPostModerationError \<and>
   forum_log (calls (snd (create_topic mq_down_env (Some alice) topic_body stored_world))) =
     [(POST, ''/users.json''), (POST, ''/posts.json'')]"
proof -
  let ?E = mq_down_env
  let ?w1 = "snd (ensure_user ?E (Some alice) empty_world)"
  let ?w2 = "snd (create_discourse_post ?E (u_username alice) ''67''
                    ''Thanks for this topic'' ?w1)"
  let ?v1 = "snd (ensure_user ?E (Some alice) stored_world)"
  let ?v2 = "snd (get_category_asset ?E (tb_asset_id topic_body) ?v1)"
  let ?v3 = "snd (create_discourse_topic ?E (u_username alice) 38 (tb_title topic_body)
                    (tb_text topic_body) ?v2)"
  have p1: "ensure_user ?E (Some alice) empty_world = (Inr (), ?w1)"
    by (simp add: run_defs env_defs io_defs status_defs)
  have p2: "create_discourse_post ?E (u_username alice) ''67'' ''Thanks for this topic'' ?w1 =
              (Inr full_body, ?w2)"
    by (simp add: run_defs env_defs io_defs status_defs)
  have p3: "as_post full_body = Some alice_post"
    by (simp add: full_body_def empty_body_def)
  have p4: "\<not> mq_accepts ?E (calls ?w2)
              (ValidatePostMessage (p_id alice_post) ''Thanks for this topic'' alice)"
    by (simp add: mq_down_env_def)
  have t0: "15 \<le> length (tb_title topic_body)" "20 \<le> length (tb_text topic_body)"
    by (simp_all add: topic_body_def)
  have t1: "ensure_user ?E (Some alice) stored_world = (Inr (), ?v1)"
    by (simp add: run_defs env_defs io_defs status_defs)
  have t2: "get_category_asset ?E (tb_asset_id topic_body) ?v1 = (Inr (Some 38), ?v2)"
    by (simp add: run_defs env_defs io_defs status_defs stored_world_def topic_body_def)
  have t3: "create_discourse_topic ?E (u_username alice) 38 (tb_title topic_body)
              (tb_text topic_body) ?v2 = (Inr alice_post, ?v3)"
    by (simp add: run_defs env_defs io_defs status_defs)
  have t4: "\<not> mq_accepts ?E (calls ?v3)
              (ValidateTopicMessage (p_topic_id alice_post) (tb_title topic_body) alice)"
    by (simp add: mq_down_env_def)
  note inst = moderation_send_failure_not_compensated
     [where E = ?E and user = alice and w = empty_world and ?w1.0 = ?w1
      and topic_id = "''67''" and body_text = "''Thanks for this topic''" and doc = full_body
      and ?w2.0 = ?w2 and created = alice_post and b = topic_body and E' = ?E and user' = alice
      and v = stored_world and ?v1.0 = ?v1 and cat = 38 and ?v2.0 = ?v2 and post = alice_post
      and ?v3.0 = ?v3]
  have a: "create_post ?E (Some alice) ''67'' ''Thanks for this topic'' empty_world =
      (Inl SendPostModerationError,
       ?w2\<lparr>calls := calls ?w2 @
                [Mq (ValidatePostMessage (p_id alice_post) ''Thanks for this topic'' alice)],
          logs := logs ?w2 @ [(''Failed to send data to MQ %s'',
             [LMsg (ValidatePostMessage (p_id alice_post) ''Thanks for this topic'' alice)])]\<rparr>)
      \<and> forum_log (calls ?w2) =
          forum_log (calls empty_world) @ [(POST, ''/users.json''), (POST, ''/posts.json'')]"
    using inst [THEN conjunct1] p1 p2 p3 p4 by blast
  have b: "fst (create_topic ?E (Some alice) topic_body stored_world) =
             Inl SendPostModerationError \<and>
           forum_log (calls ?v3) =
             forum_log (calls stored_world) @ [(POST, ''/users.json''), (POST, ''/posts.json'')]"
    using inst [THEN conjunct2] t0 t1 t2 t3 t4 by simp
  have b': "calls (snd (create_topic ?E (Some alice) topic_body stored_world)) =
            calls ?v3 @
            [Mq (ValidateTopicMessage (p_topic_id alice_post) (tb_title topic_body) alice)]"
    using inst [THEN conjunct2] t0 t1 t2 t3 t4 by simp
  have l2: "logs ?w2 = []"
    by (simp add: run_defs env_defs io_defs status_defs)
  have f1: "fst (ensure_user ?E (Some alice) empty_world) = Inr ()"
    using p1 by (simp add: prod_eq_iff)
  have f2: "fst (create_discourse_post ?E ''alice'' ''67'' ''Thanks for this topic'' ?w1) =
            Inr full_body"
    using p2 by (simp add: prod_eq_iff alice_def)
  show ?thesis
    using a b b' l2 p3 f1 f2
    by (simp add: alice_def alice_post_def stored_world_def empty_world_def)
qed

subsection \<open>Deleting a topic\<close>

lemma lower_user: "lower ''User'' = ''user''"
  by (simp add: lower_def lower_char_def)

lemma lower_admin: "lower ''Admin'' = ''admin''"
  by (simp add: lower_def lower_char_def)

text \<open>
  Claim C6. Let a \<open>DELETE /topic/{topic_id}\<close> carry a user who is provisioned, let the
  topic be fetched and let the auth service give the roles of the caller. If the
  username of the topic is not the caller's and no role is "admin" once put in lower
  case, the route logs and answers with status 403 and the message of the owner or
  admin, and its requests to the platform are the provisioning and the fetch: the
  topic is not deleted. If the username is the caller's or a role is "admin" in lower
  case, and the platform takes the deletion, the route answers with the message of
  success, and the deletion is the last request made to the platform.
\<close>

theorem delete_topic_owner_or_admin:
  assumes "ensure_user E (Some user) w = (Inr (), w1)"
    and "get_discourse_topic E topic_id w1 = (Inr found, w2)"
    and "get_current_user_roles E w2 = (Inr (Some rs), w3)"
  shows "(t_username found \<noteq> Some (u_username user) \<and> ''admin'' \<notin> set (map lower rs) \<longrightarrow>
            delete_topic E (Some user) topic_id w =
              (Inr \<lparr>data = EmptyDict,
                    error = Some ''Only the topic owner or admin can delete the topic.'',
                    http_status = Some 403\<rparr>,
               w3\<lparr>logs := logs w3 @
                  [(''Only the topic owner or admin can delete the topic.'', [])]\<rparr>) \<and>
            forum_log (calls w3) = forum_log (calls w) @
              [(POST, ''/users.json''), (GET, ''/t/'' @ topic_id @ ''.json'')]) \<and>
         ((t_username found = Some (u_username user) \<or> ''admin'' \<in> set (map lower rs)) \<and>
          delete_discourse_topic E topic_id w3 = (Inr (), w4) \<longrightarrow>
            delete_topic E (Some user) topic_id w =
              (Inr \<lparr>data = MessageData ''Topic deleted successfully'', error = None,
                    http_status = None\<rparr>, w4) \<and>
            forum_log (calls w4) = forum_log (calls w) @
              [(POST, ''/users.json''), (GET, ''/t/'' @ topic_id @ ''.json''),
               (DELETE, ''/t/'' @ topic_id @ ''.json'')])"
proof -
  have log3: "forum_log (calls w3) = forum_log (calls w) @
              [(POST, ''/users.json''), (GET, ''/t/'' @ topic_id @ ''.json'')]"
    using ensure_user_frame [of E user w] get_discourse_topic_frame [of E topic_id w1]
      get_current_user_roles_frame [of E w2] assms
    by simp
  have refused: "delete_topic E (Some user) topic_id w =
              (Inr \<lparr>data = EmptyDict,
                    error = Some ''Only the topic owner or admin can delete the topic.'',
                    http_status = Some 403\<rparr>,
               w3\<lparr>logs := logs w3 @
                  [(''Only the topic owner or admin can delete the topic.'', [])]\<rparr>)"
    if "t_username found \<noteq> Some (u_username user)" "''admin'' \<notin> set (map lower rs)"
    using assms that
    by (simp add: delete_topic_def attr_def iterate_def ret_def bind_io_def try_except_def
        log_error_def Let_def)
  have deleted: "delete_topic E (Some user) topic_id w =
              (Inr \<lparr>data = MessageData ''Topic deleted successfully'', error = None,
                    http_status = None\<rparr>, w4)"
    if "t_username found = Some (u_username user) \<or> ''admin'' \<in> set (map lower rs)"
      "delete_discourse_topic E topic_id w3 = (Inr (), w4)"
    using assms that
    by (auto simp: delete_topic_def attr_def iterate_def ret_def bind_io_def try_except_def
        Let_def)
  have log4: "forum_log (calls w4) = forum_log (calls w) @
              [(POST, ''/users.json''), (GET, ''/t/'' @ topic_id @ ''.json''),
               (DELETE, ''/t/'' @ topic_id @ ''.json'')]"
    if "delete_discourse_topic E topic_id w3 = (Inr (), w4)"
    using delete_discourse_topic_frame [of E topic_id w3] that log3 by simp
  show ?thesis
    using log3 refused deleted log4 by blast
qed

theorem delete_topic_owner_or_admin_witness:
  "fst (ensure_user forum_up_env (Some moderator) empty_world) = Inr () \<and>
   fst (get_discourse_topic forum_up_env ''67''
          (snd (ensure_user forum_up_env (Some moderator) empty_world))) =
     Inr ((topic real_topic)\<lparr>t_username := Some ''alice''\<rparr>) \<and>
   fst (delete_topic forum_up_env (Some moderator) ''67'' empty_world) =
     Inr \<lparr>data = EmptyDict,
           error = Some ''Only the topic owner or admin can delete the topic.'',
           http_status = Some 403\<rparr> \<and>
   forum_log (calls (snd (delete_topic forum_up_env (Some moderator) ''67'' empty_world))) =
     [(POST, ''/users.json''), (GET, ''/t/67.json'')] \<and>
   fst (delete_topic admin_env (Some moderator) ''67'' empty_world) =
     Inr \<lparr>data = MessageData ''Topic deleted successfully'', error = None,
           http_status = None\<rparr> \<and>
   forum_log (calls (snd (delete_topic admin_env (Some moderator) ''67'' empty_world))) =
     [(POST, ''/users.json''), (GET, ''/t/67.json''), (DELETE, ''/t/67.json'')]"
proof -
  let ?found = "(topic real_topic)\<lparr>t_username := Some ''alice''\<rparr>"
  let ?w1 = "snd (ensure_user forum_up_env (Some moderator) empty_world)"
  let ?w2 = "snd (get_discourse_topic forum_up_env ''67'' ?w1)"
  let ?w3 = "snd (get_current_user_roles forum_up_env ?w2)"
  have p1: "ensure_user forum_up_env (Some moderator) empty_world = (Inr (), ?w1)"
    by (simp add: run_defs env_defs io_defs status_defs)
  have p2: "get_discourse_topic forum_up_env ''67'' ?w1 = (Inr ?found, ?w2)"
    by (simp add: run_defs env_defs io_defs status_defs)
  have p3: "get_current_user_roles forum_up_env ?w2 = (Inr (Some [''User'']), ?w3)"
    by (simp add: run_defs env_defs io_defs HTTP_STATUS_OK_def HTTP_STATUS_UNAUTHORIZED_def)
  have no: "t_username ?found \<noteq> Some (u_username moderator) \<and>
            ''admin'' \<notin> set (map lower [''User''])"
    by (simp add: moderator_def lower_user)
  let ?v1 = "snd (ensure_user admin_env (Some moderator) empty_world)"
  let ?v2 = "snd (get_discourse_topic admin_env ''67'' ?v1)"
  let ?v3 = "snd (get_current_user_roles admin_env ?v2)"
  let ?v4 = "snd (delete_discourse_topic admin_env ''67'' ?v3)"
  have q1: "ensure_user admin_env (Some moderator) empty_world = (Inr (), ?v1)"
    by (simp add: run_defs env_defs io_defs status_defs)
  have q2: "get_discourse_topic admin_env ''67'' ?v1 = (Inr ?found, ?v2)"
    by (simp add: run_defs env_defs io_defs status_defs)
  have q3: "get_current_user_roles admin_env ?v2 = (Inr (Some [''Admin'']), ?v3)"
    by (simp add: run_defs env_defs io_defs HTTP_STATUS_OK_def HTTP_STATUS_UNAUTHORIZED_def)
  have q4: "delete_discourse_topic admin_env ''67'' ?v3 = (Inr (), ?v4)"
    by (simp add: run_defs env_defs io_defs status_defs)
  have yes: "t_username ?found = Some (u_username moderator) \<or>
             ''admin'' \<in> set (map lower [''Admin''])"
    by (simp add: lower_admin)
  from delete_topic_owner_or_admin [OF p1 p2 p3, THEN conjunct1] no
  have a: "delete_topic forum_up_env (Some moderator) ''67'' empty_world =
              (Inr \<lparr>data = EmptyDict,
                    error = Some ''Only the topic owner or admin can delete the topic.'',
                    http_status = Some 403\<rparr>,
               ?w3\<lparr>logs := logs ?w3 @
                  [(''Only the topic owner or admin can delete the topic.'', [])]\<rparr>) \<and>
            forum_log (calls ?w3) = forum_log (calls empty_world) @
              [(POST, ''/users.json''), (GET, ''/t/'' @ ''67'' @ ''.json'')]"
    by blast
  from delete_topic_owner_or_admin [OF q1 q2 q3, THEN conjunct2] yes q4
  have b: "delete_topic admin_env (Some moderator) ''67'' empty_world =
              (Inr \<lparr>data = MessageData ''Topic deleted successfully'', error = None,
                    http_status = None\<rparr>, ?v4) \<and>
            forum_log (calls ?v4) = forum_log (calls empty_world) @
              [(POST, ''/users.json''), (GET, ''/t/'' @ ''67'' @ ''.json''),
               (DELETE, ''/t/'' @ ''67'' @ ''.json'')]"
    by blast
  have f1: "fst (ensure_user forum_up_env (Some moderator) empty_world) = Inr ()"
    using p1 by (simp add: prod_eq_iff)
  have f2: "fst (get_discourse_topic forum_up_env ''67'' ?w1) = Inr ?found"
    using p2 by (simp add: prod_eq_iff)
  show ?thesis
    using a b f1 f2 by (simp add: empty_world_def)
qed

subsection \<open>Moderating a post or a topic\<close>

text \<open>
  Claim C3, as stated, fails: the notification does not go to the author of the post.
  The platform holds a post of alice; the moderator moderates it; the route succeeds,
  the one email requested is addressed to the moderator, and none is addressed to alice.
\<close>

theorem moderate_post_recipient_counterexample:
  "fst (get_discourse_post forum_up_env ''5'' empty_world) = Inr alice_post \<and>
   p_username alice_post = u_username alice \<and>
   fst (moderate_post forum_up_env (Some moderator) ''5'' CONTENT_BLOCKED empty_world) =
     Inr \<lparr>data = PostData (post_from_reply
             (alice_post\<lparr>p_cooked := ''<p>[Content has been blocked]</p>''\<rparr>)),
           error = None, http_status = None\<rparr> \<and>
   recipients (calls (snd (moderate_post forum_up_env (Some moderator) ''5'' CONTENT_BLOCKED
     empty_world))) = [''moderator@example.org''] \<and>
   profile_email alice \<notin> set (recipients (calls (snd
     (moderate_post forum_up_env (Some moderator) ''5'' CONTENT_BLOCKED empty_world))))"
  by (simp add: moderate_post_def ensure_user_def get_discourse_post_def edit_discourse_post_def
      handle_response_error_def send_email_to_mq_def attr_def except_clauses_def
      forum_up_env_def full_body_def alice_def moderator_def alice_post_def
      example_defs io_defs status_defs)

text \<open>
  Claim C3, amended. When the user of the request is provisioned, the original post is
  fetched and the edit succeeds, \<open>PUT /post/moderate/{post_id}\<close> then requests one email,
  to the profile email and with the id of the user of the request (the caller), whose
  message ends with the content of the original post, and returns the edited post. When
  the user is provisioned, the topic is fetched and the deletion succeeds,
  \<open>DELETE /topic/moderate/{topic_id}\<close> then requests one email, to the caller likewise,
  whose message ends with the title of the topic, and returns the message of success.
\<close>

theorem moderation_notifies_current_user:
  "(ensure_user E (Some user) w = (Inr (), w1) \<and>
    get_discourse_post E post_id w1 = (Inr original_post, w2) \<and>
    edit_discourse_post E post_id body_text w2 = (Inr edited, w3)
    \<longrightarrow>
    moderate_post E (Some user) post_id body_text w =
      (Inr \<lparr>data = PostData (post_from_reply edited), error = None, http_status = None\<rparr>,
       w3\<lparr>calls := calls w3 @ [Email
          \<lparr>notification_type = ASSET_MODERATION_REJECTED, user_email = profile_email user,
           subject = ''Post refused by moderation'',
           message = ''Post has been refused by the moderation: '' @ p_cooked original_post,
           e_user_id = u_id user\<rparr>]\<rparr>))
   \<and>
   (ensure_user E' (Some user') v = (Inr (), v1) \<and>
    get_discourse_topic E' topic_id v1 = (Inr found, v2) \<and>
    delete_discourse_topic E' topic_id v2 = (Inr (), v3)
    \<longrightarrow>
    moderate_topic E' (Some user') topic_id v =
      (Inr \<lparr>data = MessageData ''Topic moderated successfully'', error = None,
            http_status = None\<rparr>,
       v3\<lparr>calls := calls v3 @ [Email
          \<lparr>notification_type = ASSET_MODERATION_REJECTED, user_email = profile_email user',
           subject = ''Topic refused by moderation'',
           message = ''Topic has been refused by the moderation: '' @ t_title found,
           e_user_id = u_id user'\<rparr>]\<rparr>))"
  by (simp add: moderate_post_def moderate_topic_def attr_def send_email_to_mq_def
      record_call_def ret_def bind_io_def try_except_def)

theorem moderation_notifies_current_user_witness:
  "fst (ensure_user forum_up_env (Some moderator) empty_world) = Inr () \<and>
   fst (get_discourse_post forum_up_env ''5''
          (snd (ensure_user forum_up_env (Some moderator) empty_world))) = Inr alice_post \<and>
   fst (moderate_post forum_up_env (Some moderator) ''5'' CONTENT_BLOCKED empty_world) =
     Inr \<lparr>data = PostData (post_from_reply
              (alice_post\<lparr>p_cooked := ''<p>[Content has been blocked]</p>''\<rparr>)),
           error = None, http_status = None\<rparr> \<and>
   last (calls (snd (moderate_post forum_up_env (Some moderator) ''5'' CONTENT_BLOCKED
     empty_world))) =
     Email \<lparr>notification_type = ASSET_MODERATION_REJECTED,
       user_email = ''moderator@example.org'', subject = ''Post refused by moderation'',
       message = ''Post has been refused by the moderation: <p>An awesome first post</p>'',
       e_user_id = ''moderator-id''\<rparr> \<and>
   fst (moderate_topic forum_up_env (Some moderator) ''67'' empty_world) =
     Inr \<lparr>data = MessageData ''Topic moderated successfully'', error = None,
           http_status = None\<rparr> \<and>
   last (calls (snd (moderate_topic forum_up_env (Some moderator) ''67'' empty_world))) =
     Email \<lparr>notification_type = ASSET_MODERATION_REJECTED,
       user_email = ''moderator@example.org'', subject = ''Topic refused by moderation'',
       message = ''Topic has been refused by the moderation: Test_ds: An awesome new topic'',
       e_user_id = ''moderator-id''\<rparr>"
proof -
  let ?E = forum_up_env
  let ?w1 = "snd (ensure_user ?E (Some moderator) empty_world)"
  let ?w2 = "snd (get_discourse_post ?E ''5'' ?w1)"
  let ?w3 = "snd (edit_discourse_post ?E ''5'' CONTENT_BLOCKED ?w2)"
  let ?v2 = "snd (get_discourse_topic ?E ''67'' ?w1)"
  let ?v3 = "snd (delete_discourse_topic ?E ''67'' ?v2)"
  let ?found = "(topic real_topic)\<lparr>t_username := Some ''alice''\<rparr>"
  let ?edited = "alice_post\<lparr>p_cooked := ''<p>[Content has been blocked]</p>''\<rparr>"
  have p1: "ensure_user ?E (Some moderator) empty_world = (Inr (), ?w1)"
    by (simp add: run_defs env_defs io_defs status_defs)
  have p2: "get_discourse_post ?E ''5'' ?w1 = (Inr alice_post, ?w2)"
    by (simp add: run_defs env_defs io_defs status_defs)
  have p3: "edit_discourse_post ?E ''5'' CONTENT_BLOCKED ?w2 = (Inr ?edited, ?w3)"
    by (simp add: run_defs env_defs io_defs status_defs)
  have q2: "get_discourse_topic ?E ''67'' ?w1 = (Inr ?found, ?v2)"
    by (simp add: run_defs env_defs io_defs status_defs)
  have q3: "delete_discourse_topic ?E ''67'' ?v2 = (Inr (), ?v3)"
    by (simp add: run_defs env_defs io_defs status_defs)
  note inst = moderation_notifies_current_user
     [where E = ?E and user = moderator and w = empty_world and ?w1.0 = ?w1
      and post_id = "''5''" and original_post = alice_post and ?w2.0 = ?w2
      and body_text = CONTENT_BLOCKED and edited = ?edited and ?w3.0 = ?w3
      and E' = ?E and user' = moderator and v = empty_world and ?v1.0 = ?w1
      and topic_id = "''67''" and found = ?found and ?v2.0 = ?v2 and ?v3.0 = ?v3]
  have f1: "fst (ensure_user ?E (Some moderator) empty_world) = Inr ()"
    using p1 by (simp add: prod_eq_iff)
  have f2: "fst (get_discourse_post ?E ''5'' ?w1) = Inr alice_post"
    using p2 by (simp add: prod_eq_iff)
  from inst [THEN conjunct1] p1 p2 p3 inst [THEN conjunct2] q2 q3 f1 f2
  show ?thesis
    by (simp add: moderator_def alice_post_def real_topic_def)
qed

end
